theory Spec2Isabelle
  imports Complex_Main
begin

section \<open>The multiplication example notebook\<close>

text \<open>
  The development follows \<^verbatim>\<open>docs/examples/basic/multiplication.ipynb\<close>.
  Numbers handed to the library (signal values, breakpoints, radii) are modelled as
  real numbers; Python integers that count things are modelled as \<open>int\<close>.
\<close>

subsection \<open>The connection function \<open>product\<close>\<close>

datatype py_error = IndexError

text \<open>
  Indexing a vector with a non-negative literal, as in \<^verbatim>\<open>x[0]\<close> and \<^verbatim>\<open>x[1]\<close>:
  Python raises \<^verbatim>\<open>IndexError\<close> when the index is not below the length.
\<close>

definition getitem :: "'a list \<Rightarrow> nat \<Rightarrow> py_error + 'a" where
  "getitem x i = (if i < length x then Inr (x ! i) else Inl IndexError)"

text \<open>
  \<^verbatim>\<open>def product(x): return x[0] * x[1]\<close> of the Step-3 cell. The left operand
  is evaluated first, so a failing \<^verbatim>\<open>x[0]\<close> is raised before \<^verbatim>\<open>x[1]\<close> is read.
\<close>

definition product :: "real list \<Rightarrow> py_error + real" where
  "product x =
     (case getitem x 0 of
        Inl e \<Rightarrow> Inl e
      | Inr x0 \<Rightarrow>
          (case getitem x 1 of
             Inl e \<Rightarrow> Inl e
           | Inr x1 \<Rightarrow> Inr (x0 * x1)))"

text \<open>The function of the same name and body nested in \<^verbatim>\<open>Product\<close> (bonus cell).\<close>

definition product_sub :: "real list \<Rightarrow> py_error + real" where
  "product_sub x =
     (case getitem x 0 of
        Inl e \<Rightarrow> Inl e
      | Inr x0 \<Rightarrow>
          (case getitem x 1 of
             Inl e \<Rightarrow> Inl e
           | Inr x1 \<Rightarrow> Inr (x0 * x1)))"

subsection \<open>Piecewise signals\<close>

text \<open>
  A Python dict literal from time offsets to output values, in the order written.
\<close>

type_synonym breakpoints = "(real \<times> real) list"

text \<open>\<^verbatim>\<open>{0: 0, 2.5: 10, 4: -10}\<close>\<close>

definition inputA_data :: breakpoints where
  "inputA_data = [(0, 0), (2.5, 10), (4, - 10)]"

text \<open>\<^verbatim>\<open>{0: 10, 1.5: 2, 3: 0, 4.5: 2}\<close>\<close>

definition inputB_data :: breakpoints where
  "inputB_data = [(0, 10), (1.5, 2), (3, 0), (4.5, 2)]"

text \<open>\<^verbatim>\<open>{0: 0, 1.5: 0, 2.5: 20, 3: 0, 4: 0, 4.5: -20}\<close>\<close>

definition correct_ans_data :: breakpoints where
  "correct_ans_data = [(0, 0), (1.5, 0), (2.5, 20), (3, 0), (4, 0), (4.5, - 20)]"

text \<open>
  Modelled from the spec: the sampling rule of \<^verbatim>\<open>nengo.processes.Piecewise\<close>, whose
  code is not part of the sources at hand. The spec describes a piecewise signal as
  ``a time-indexed input whose value is constant between specified breakpoints'',
  generated from ``a mapping from time offsets to output values''; the value at time
  \<open>t\<close> is the one of the latest breakpoint at or before \<open>t\<close>. Nothing is said about
  times before the first breakpoint, so there the model gives \<open>None\<close>.

  \<open>latest_breakpoint\<close> scans the mapping in any order and keeps the entry with the
  greatest time offset that is not after \<open>t\<close>.
\<close>

fun latest_breakpoint :: "breakpoints \<Rightarrow> real \<Rightarrow> (real \<times> real) option" where
  "latest_breakpoint [] t = None"
| "latest_breakpoint ((k, v) # kvs) t =
     (case latest_breakpoint kvs t of
        None \<Rightarrow> (if k \<le> t then Some (k, v) else None)
      | Some (k', v') \<Rightarrow> (if k \<le> t \<and> k' < k then Some (k, v) else Some (k', v')))"

definition Piecewise_at :: "breakpoints \<Rightarrow> real \<Rightarrow> real option" where
  "Piecewise_at d t = (case latest_breakpoint d t of None \<Rightarrow> None | Some (k, v) \<Rightarrow> Some v)"

subsection \<open>The layout of the notebook\<close>

text \<open>
  The notebook file is a JSON list of cells, each with a \<^verbatim>\<open>cell_type\<close>. For a code cell
  the model records the names the cell binds in the notebook's namespace (by an import,
  an assignment, a \<^verbatim>\<open>def\<close> or \<^verbatim>\<open>with ... as\<close>) and the names it reads from that
  namespace, each list in the order of first occurrence. Parameters and local variables
  of the two function definitions (\<^verbatim>\<open>x\<close>, \<^verbatim>\<open>neuron_per_dimension\<close>, \<^verbatim>\<open>input_magnitude\<close>
  and the \<^verbatim>\<open>model\<close> and \<^verbatim>\<open>product\<close> local to \<^verbatim>\<open>Product\<close>) are not names of the notebook's
  namespace; the global names a function body reads (\<^verbatim>\<open>nengo\<close>, \<^verbatim>\<open>np\<close>, \<^verbatim>\<open>Choice\<close>) are.
\<close>

datatype cell_type = markdown | code

record cell =
  cell_type :: cell_type
  binds :: "string list"
  reads :: "string list"

definition markdown_cell :: cell where
  "markdown_cell = \<lparr>cell_type = markdown, binds = [], reads = []\<rparr>"

definition code_cell :: "string list \<Rightarrow> string list \<Rightarrow> cell" where
  "code_cell bs rs = \<lparr>cell_type = code, binds = bs, reads = rs\<rparr>"

text \<open>
  The eighteen cells, top to bottom: the title, the imports, then a heading and a code
  cell for each of Step 1 to Step 6, a closing remark, the heading of the bonus step,
  the bonus code cell, and a final remark.
\<close>

definition cells :: "cell list" where
  "cells =
    [markdown_cell,
     code_cell [''plt'', ''np'', ''nengo'', ''Choice'', ''Piecewise''] [],
     markdown_cell,
     code_cell [''model'', ''A'', ''B'', ''combined'', ''prod'']
       [''nengo'', ''model'', ''combined'', ''Choice''],
     markdown_cell,
     code_cell [''inputA'', ''inputB'', ''correct_ans''] [''model'', ''nengo'', ''Piecewise''],
     markdown_cell,
     code_cell [''product'']
       [''model'', ''nengo'', ''inputA'', ''A'', ''inputB'', ''B'', ''combined'', ''prod'',
        ''product''],
     markdown_cell,
     code_cell
       [''inputA_probe'', ''inputB_probe'', ''A_probe'', ''B_probe'', ''combined_probe'',
        ''prod_probe'']
       [''model'', ''nengo'', ''inputA'', ''inputB'', ''A'', ''B'', ''combined'', ''prod''],
     markdown_cell,
     code_cell [''sim''] [''nengo'', ''model'', ''sim''],
     markdown_cell,
     code_cell []
       [''plt'', ''sim'', ''A_probe'', ''B_probe'', ''prod_probe'', ''correct_ans''],
     markdown_cell,
     markdown_cell,
     code_cell
       [''Product'', ''model'', ''inputA'', ''inputB'', ''A'', ''B'', ''prod'',
        ''inputA_probe'', ''inputB_probe'', ''A_probe'', ''B_probe'', ''combined_probe'',
        ''prod_probe'', ''sim'']
       [''nengo'', ''np'', ''Choice'', ''model'', ''Piecewise'', ''Product'', ''inputA'',
        ''A'', ''inputB'', ''B'', ''prod'', ''sim'', ''plt'', ''A_probe'', ''B_probe'',
        ''prod_probe'', ''correct_ans''],
     markdown_cell]"

definition code_cells :: "cell list" where
  "code_cells = [c \<leftarrow> cells. cell_type c = code]"

text \<open>The names a cell uses but does not itself create.\<close>

definition free_names :: "cell \<Rightarrow> string list" where
  "free_names c = [n \<leftarrow> reads c. n \<notin> set (binds c)]"

text \<open>The names created by the code cells before code cell \<open>N\<close> (counted from 0).\<close>

definition bound_before :: "nat \<Rightarrow> string list" where
  "bound_before N = concat (map binds (take N code_cells))"

subsection \<open>Objects of the simulation library\<close>

text \<open>
  Modelled from the spec: the objects of the library \<^verbatim>\<open>nengo\<close>, whose code is not part of
  the sources at hand. The spec lists what the notebook hands to the library: a
  ``population declaration: neuron count, signal dimensionality, dynamic range (radius),
  optional explicit encoder directions''; ``connection declarations, optionally annotated
  with a scalar transformation function [...] and an optional smoothing filter
  time-constant''; ``observation handles attached to populations/signals, optionally
  filtered''; ``a scoped simulation context''. An object of the model is the record of
  the arguments of the call that declared it. Objects live in a store and are referred
  to by their position in it.
\<close>

type_synonym ref = nat

text \<open>\<^verbatim>\<open>Choice([[1, 1], [-1, 1], [1, -1], [-1, -1]])\<close>: a choice among listed vectors.\<close>

datatype dist = ChoiceDist "real list list"

datatype process = PiecewiseProcess breakpoints

text \<open>An end of a connection or the target of a probe: an object, or a slice \<^verbatim>\<open>obj[i]\<close> of it.\<close>

datatype endpoint = Obj ref | View ref int

text \<open>
  The \<^verbatim>\<open>synapse\<close> argument: left out, \<^verbatim>\<open>None\<close>, or a time constant such as \<^verbatim>\<open>0.01\<close>.
\<close>

datatype synapse_arg = SynapseDefault | SynapseNone | SynapseTau real

record ensemble =
  n_neurons :: int
  dimensions :: int
  radius :: real
  encoders :: "dist option"

record node =
  node_output :: "process option"
  size_in :: "int option"

record connection =
  pre :: endpoint
  post :: endpoint
  conn_function :: "(real list \<Rightarrow> py_error + real) option"
  conn_synapse :: synapse_arg

record probe =
  target :: endpoint
  probe_synapse :: synapse_arg

record network =
  label :: string
  members :: "ref list"

record simulator =
  sim_network :: ref
  sim_time :: real
  sim_closed :: bool

datatype obj =
    NetworkObj network
  | EnsembleObj ensemble
  | NodeObj node
  | ConnectionObj connection
  | ProbeObj probe
  | SimulatorObj simulator

text \<open>
  What the simulator hands back for plotting (time vector, recorded series, current
  time, timestep, a process sampled over the run) is computed inside the library; the
  model keeps such a value symbolic.
\<close>

datatype sim_value =
    Trange ref
  | Data ref ref
  | Time ref
  | Dt ref
  | ProcessRun process sim_value sim_value

subsection \<open>Calls into the libraries\<close>

text \<open>Every call the notebook makes into \<^verbatim>\<open>nengo\<close>, \<^verbatim>\<open>numpy\<close> or \<^verbatim>\<open>matplotlib\<close>, with its arguments.\<close>

datatype api_call =
    Magic_call string
  | Import_call string
  | Network_call string
  | Ensemble_call int int real "dist option"
  | Set_encoders_call ref dist
  | Choice_call "real list list"
  | Piecewise_call breakpoints
  | Node_call "process option" "int option"
  | Getitem_call ref int
  | Connection_call endpoint endpoint "(real list \<Rightarrow> py_error + real) option" synapse_arg
  | Probe_call endpoint synapse_arg
  | Simulator_call ref
  | Sim_run_call ref real
  | Sim_trange_call ref
  | Sim_data_call ref ref
  | Sim_time_call ref
  | Sim_dt_call ref
  | Process_run_call process sim_value sim_value
  | Sqrt_call real
  | Plt_figure_call
  | Plt_plot_call sim_value sim_value "(string \<times> string) list"
  | Plt_legend_call "(string \<times> string) list"
  | Plt_ylim_call real real

text \<open>
  The state of the Python session running the notebook: the store of library objects,
  the stack of networks opened by \<^verbatim>\<open>with\<close> (innermost first), and the library calls
  attempted so far, oldest first.
\<close>

record kernel =
  store :: "obj list"
  net_context :: "ref list"
  history :: "api_call list"

definition kernel0 :: kernel where
  "kernel0 = \<lparr>store = [], net_context = [], history = []\<rparr>"

text \<open>
  Which calls the libraries reject, and with which error, is not visible in the
  notebook (``invalid parameters, convergence issues in decoder computation [...] are
  the responsibility of the external library''). It is a parameter of the model: a
  library \<open>L\<close> decides, from the calls made before and the call at hand, whether to raise
  (\<open>Some e\<close>) or to go ahead (\<open>None\<close>). The type \<open>'e\<close> of errors is arbitrary.
\<close>

type_synonym 'e library = "api_call list \<Rightarrow> api_call \<Rightarrow> 'e option"

definition no_failure :: "'e library" where
  "no_failure h c = None"

text \<open>
  A piece of notebook code takes the session state and ends either with a value or
  with an error raised (\<open>Inl\<close>); the state survives in both cases, as it does in a
  Python session. Sequencing stops at the first error, as Python does when a statement
  raises and nothing catches.
\<close>

type_synonym ('e, 'a) nb = "kernel \<Rightarrow> ('e + 'a) \<times> kernel"

definition ret :: "'a \<Rightarrow> ('e, 'a) nb" where
  "ret x k = (Inr x, k)"

definition bnd :: "('e, 'a) nb \<Rightarrow> ('a \<Rightarrow> ('e, 'b) nb) \<Rightarrow> ('e, 'b) nb" where
  "bnd m f k = (case m k of (Inl e, k') \<Rightarrow> (Inl e, k') | (Inr x, k') \<Rightarrow> f x k')"

text \<open>
  A call into a library: it is entered in the history; if the library raises, the error
  comes back and the store is as before; otherwise the call has its effect on the
  session and returns its value.
\<close>

definition lib_call :: "'e library \<Rightarrow> api_call \<Rightarrow> (kernel \<Rightarrow> 'a \<times> kernel) \<Rightarrow> ('e, 'a) nb" where
  "lib_call L c effect k =
     (case L (history k) c of
        Some e \<Rightarrow> (Inl e, k\<lparr>history := history k @ [c]\<rparr>)
      | None \<Rightarrow> (case effect k of (x, k') \<Rightarrow> (Inr x, k'\<lparr>history := history k @ [c]\<rparr>)))"

subsection \<open>Effects of the library calls\<close>

text \<open>
  Modelled from the spec: what a successful call does to the session. A constructor
  call stores the declared object; inside \<^verbatim>\<open>with net:\<close> the object also becomes a member
  of the innermost open network \<open>net\<close>. (Outside every \<^verbatim>\<open>with\<close> block the model keeps the
  object without a network; the notebook only creates networks and simulators there.)
\<close>

definition pure_result :: "'a \<Rightarrow> kernel \<Rightarrow> 'a \<times> kernel" where
  "pure_result x k = (x, k)"

definition new_object :: "obj \<Rightarrow> kernel \<Rightarrow> ref \<times> kernel" where
  "new_object ob k = (length (store k), k\<lparr>store := store k @ [ob]\<rparr>)"

definition add_member :: "ref \<Rightarrow> obj \<Rightarrow> obj" where
  "add_member r ob =
     (case ob of NetworkObj n \<Rightarrow> NetworkObj (n\<lparr>members := members n @ [r]\<rparr>) | _ \<Rightarrow> ob)"

definition add_to_network :: "obj \<Rightarrow> kernel \<Rightarrow> ref \<times> kernel" where
  "add_to_network ob k =
     (case new_object ob k of
        (r, k') \<Rightarrow>
          (case net_context k' of
             [] \<Rightarrow> (r, k')
           | net # _ \<Rightarrow> (r, k'\<lparr>store := (store k')[net := add_member r (store k' ! net)]\<rparr>)))"

definition update_object :: "ref \<Rightarrow> (obj \<Rightarrow> obj) \<Rightarrow> kernel \<Rightarrow> unit \<times> kernel" where
  "update_object r f k = ((), k\<lparr>store := (store k)[r := f (store k ! r)]\<rparr>)"

definition put_encoders :: "dist \<Rightarrow> obj \<Rightarrow> obj" where
  "put_encoders enc ob =
     (case ob of EnsembleObj e \<Rightarrow> EnsembleObj (e\<lparr>encoders := Some enc\<rparr>) | _ \<Rightarrow> ob)"

definition advance :: "real \<Rightarrow> obj \<Rightarrow> obj" where
  "advance t ob =
     (case ob of SimulatorObj s \<Rightarrow> SimulatorObj (s\<lparr>sim_time := sim_time s + t\<rparr>) | _ \<Rightarrow> ob)"

definition set_closed :: "obj \<Rightarrow> obj" where
  "set_closed ob =
     (case ob of SimulatorObj s \<Rightarrow> SimulatorObj (s\<lparr>sim_closed := True\<rparr>) | _ \<Rightarrow> ob)"

text \<open>
  Modelled from the spec: the two \<^verbatim>\<open>with\<close> scopes. \<^verbatim>\<open>with net:\<close> opens the network for
  the body and closes it afterwards, also when the body raised; \<^verbatim>\<open>with Simulator(...)
  as sim:\<close> is the ``scoped simulation context'' of the spec, closed on exit. Leaving a
  scope does not swallow an error raised in the body.
\<close>

definition with_network :: "ref \<Rightarrow> ('e, 'a) nb \<Rightarrow> ('e, 'a) nb" where
  "with_network net body k =
     (case body (k\<lparr>net_context := net # net_context k\<rparr>) of
        (r, k') \<Rightarrow> (r, k'\<lparr>net_context := tl (net_context k')\<rparr>))"

definition with_simulator :: "ref \<Rightarrow> ('e, 'a) nb \<Rightarrow> ('e, 'a) nb" where
  "with_simulator sim body k =
     (case body k of (r, k') \<Rightarrow> (r, snd (update_object sim set_closed k')))"

subsection \<open>The library functions the notebook calls\<close>

text \<open>
  Modelled from the spec: the functions of \<^verbatim>\<open>nengo\<close>, \<^verbatim>\<open>numpy\<close> and \<^verbatim>\<open>matplotlib\<close> that
  the notebook calls, none of them part of the sources at hand. Each is a library call
  with the arguments the notebook passes, and has the effect described above when the
  library accepts it. What the simulator computes is left open.
\<close>

text \<open>\<^verbatim>\<open>%matplotlib inline\<close> and the \<^verbatim>\<open>import\<close> statements.\<close>

definition magic :: "'e library \<Rightarrow> string \<Rightarrow> ('e, unit) nb" where
  "magic L line = lib_call L (Magic_call line) (pure_result ())"

definition import_module :: "'e library \<Rightarrow> string \<Rightarrow> ('e, unit) nb" where
  "import_module L name = lib_call L (Import_call name) (pure_result ())"

text \<open>\<^verbatim>\<open>nengo.Network(label=...)\<close>\<close>

definition Network :: "'e library \<Rightarrow> string \<Rightarrow> ('e, ref) nb" where
  "Network L lbl =
     lib_call L (Network_call lbl) (add_to_network (NetworkObj \<lparr>label = lbl, members = []\<rparr>))"

text \<open>\<^verbatim>\<open>nengo.Ensemble(n_neurons, dimensions=..., radius=..., encoders=...)\<close>\<close>

definition Ensemble :: "'e library \<Rightarrow> int \<Rightarrow> int \<Rightarrow> real \<Rightarrow> dist option \<Rightarrow> ('e, ref) nb" where
  "Ensemble L n d r enc =
     lib_call L (Ensemble_call n d r enc)
       (add_to_network
          (EnsembleObj \<lparr>n_neurons = n, dimensions = d, radius = r, encoders = enc\<rparr>))"

definition Choice :: "'e library \<Rightarrow> real list list \<Rightarrow> ('e, dist) nb" where
  "Choice L options = lib_call L (Choice_call options) (pure_result (ChoiceDist options))"

text \<open>The assignment \<^verbatim>\<open>ens.encoders = enc\<close>, which the library checks.\<close>

definition set_encoders :: "'e library \<Rightarrow> ref \<Rightarrow> dist \<Rightarrow> ('e, unit) nb" where
  "set_encoders L ens enc =
     lib_call L (Set_encoders_call ens enc) (update_object ens (put_encoders enc))"

definition Piecewise :: "'e library \<Rightarrow> breakpoints \<Rightarrow> ('e, process) nb" where
  "Piecewise L d = lib_call L (Piecewise_call d) (pure_result (PiecewiseProcess d))"

text \<open>\<^verbatim>\<open>nengo.Node(process)\<close> and \<^verbatim>\<open>nengo.Node(output=None, size_in=1)\<close>\<close>

definition Node :: "'e library \<Rightarrow> process option \<Rightarrow> int option \<Rightarrow> ('e, ref) nb" where
  "Node L out sz =
     lib_call L (Node_call out sz) (add_to_network (NodeObj \<lparr>node_output = out, size_in = sz\<rparr>))"

text \<open>The slice \<^verbatim>\<open>obj[i]\<close> of a library object.\<close>

definition obj_getitem :: "'e library \<Rightarrow> ref \<Rightarrow> int \<Rightarrow> ('e, endpoint) nb" where
  "obj_getitem L r i = lib_call L (Getitem_call r i) (pure_result (View r i))"

text \<open>\<^verbatim>\<open>nengo.Connection(pre, post, function=..., synapse=...)\<close>\<close>

definition Connection ::
  "'e library \<Rightarrow> endpoint \<Rightarrow> endpoint \<Rightarrow> (real list \<Rightarrow> py_error + real) option \<Rightarrow> synapse_arg
     \<Rightarrow> ('e, ref) nb" where
  "Connection L a b f syn =
     lib_call L (Connection_call a b f syn)
       (add_to_network
          (ConnectionObj \<lparr>pre = a, post = b, conn_function = f, conn_synapse = syn\<rparr>))"

text \<open>\<^verbatim>\<open>nengo.Probe(target, synapse=...)\<close>\<close>

definition Probe :: "'e library \<Rightarrow> endpoint \<Rightarrow> synapse_arg \<Rightarrow> ('e, ref) nb" where
  "Probe L t syn =
     lib_call L (Probe_call t syn) (add_to_network (ProbeObj \<lparr>target = t, probe_synapse = syn\<rparr>))"

text \<open>\<^verbatim>\<open>nengo.Simulator(model)\<close>; a simulator is not a member of any network.\<close>

definition Simulator :: "'e library \<Rightarrow> ref \<Rightarrow> ('e, ref) nb" where
  "Simulator L net =
     lib_call L (Simulator_call net)
       (new_object (SimulatorObj \<lparr>sim_network = net, sim_time = 0, sim_closed = False\<rparr>))"

text \<open>\<^verbatim>\<open>sim.run(t)\<close>, \<^verbatim>\<open>sim.trange()\<close>, \<^verbatim>\<open>sim.data[p]\<close>, \<^verbatim>\<open>sim.time\<close>, \<^verbatim>\<open>sim.dt\<close>\<close>

definition sim_run :: "'e library \<Rightarrow> ref \<Rightarrow> real \<Rightarrow> ('e, unit) nb" where
  "sim_run L sim t = lib_call L (Sim_run_call sim t) (update_object sim (advance t))"

definition sim_trange :: "'e library \<Rightarrow> ref \<Rightarrow> ('e, sim_value) nb" where
  "sim_trange L sim = lib_call L (Sim_trange_call sim) (pure_result (Trange sim))"

definition sim_data :: "'e library \<Rightarrow> ref \<Rightarrow> ref \<Rightarrow> ('e, sim_value) nb" where
  "sim_data L sim p = lib_call L (Sim_data_call sim p) (pure_result (Data sim p))"

definition sim_time_of :: "'e library \<Rightarrow> ref \<Rightarrow> ('e, sim_value) nb" where
  "sim_time_of L sim = lib_call L (Sim_time_call sim) (pure_result (Time sim))"

definition sim_dt :: "'e library \<Rightarrow> ref \<Rightarrow> ('e, sim_value) nb" where
  "sim_dt L sim = lib_call L (Sim_dt_call sim) (pure_result (Dt sim))"

text \<open>\<^verbatim>\<open>process.run(t, dt=dt)\<close>\<close>

definition process_run ::
  "'e library \<Rightarrow> process \<Rightarrow> sim_value \<Rightarrow> sim_value \<Rightarrow> ('e, sim_value) nb" where
  "process_run L p t dt =
     lib_call L (Process_run_call p t dt) (pure_result (ProcessRun p t dt))"

text \<open>\<^verbatim>\<open>np.sqrt(x)\<close>, taken as the square root of real numbers.\<close>

definition np_sqrt :: "'e library \<Rightarrow> real \<Rightarrow> ('e, real) nb" where
  "np_sqrt L x = lib_call L (Sqrt_call x) (pure_result (sqrt x))"

text \<open>\<^verbatim>\<open>plt.figure()\<close>, \<^verbatim>\<open>plt.plot(x, y, **kw)\<close>, \<^verbatim>\<open>plt.legend(**kw)\<close>, \<^verbatim>\<open>plt.ylim(lo, hi)\<close>\<close>

definition plt_figure :: "'e library \<Rightarrow> ('e, unit) nb" where
  "plt_figure L = lib_call L Plt_figure_call (pure_result ())"

definition plt_plot ::
  "'e library \<Rightarrow> sim_value \<Rightarrow> sim_value \<Rightarrow> (string \<times> string) list \<Rightarrow> ('e, unit) nb" where
  "plt_plot L x y kw = lib_call L (Plt_plot_call x y kw) (pure_result ())"

definition plt_legend :: "'e library \<Rightarrow> (string \<times> string) list \<Rightarrow> ('e, unit) nb" where
  "plt_legend L kw = lib_call L (Plt_legend_call kw) (pure_result ())"

definition plt_ylim :: "'e library \<Rightarrow> real \<Rightarrow> real \<Rightarrow> ('e, unit) nb" where
  "plt_ylim L lo hi = lib_call L (Plt_ylim_call lo hi) (pure_result ())"

subsection \<open>The code cells\<close>

text \<open>
  Each code cell is a function of the names it reads from earlier cells; it returns the
  names it binds that later cells read. Statements run in source order; arguments of a
  call are evaluated left to right before the call.
\<close>

text \<open>The imports (first code cell).\<close>

definition cell_imports :: "'e library \<Rightarrow> ('e, unit) nb" where
  "cell_imports L =
     bnd (magic L ''matplotlib inline'') (\<lambda>_.
     bnd (import_module L ''matplotlib.pyplot'') (\<lambda>_.
     bnd (import_module L ''numpy'') (\<lambda>_.
     bnd (import_module L ''nengo'') (\<lambda>_.
     bnd (import_module L ''nengo.dists'') (\<lambda>_.
          import_module L ''nengo.processes'')))))"

text \<open>
  Step 1: the network and its four ensembles; after the \<^verbatim>\<open>with\<close> block the encoders of
  \<^verbatim>\<open>combined\<close> are set.
\<close>

definition cell_step1 :: "'e library \<Rightarrow> ('e, ref \<times> ref \<times> ref \<times> ref \<times> ref) nb" where
  "cell_step1 L =
     bnd (Network L ''Multiplication'') (\<lambda>model.
     bnd (with_network model
            (bnd (Ensemble L 100 1 10 None) (\<lambda>A.
             bnd (Ensemble L 100 1 10 None) (\<lambda>B.
             bnd (Ensemble L 220 2 15 None) (\<lambda>combined.
             bnd (Ensemble L 100 1 20 None) (\<lambda>prod_ens.
             ret (A, B, combined, prod_ens))))))) (\<lambda>(A, B, combined, prod_ens).
     bnd (Choice L [[1, 1], [- 1, 1], [1, - 1], [- 1, - 1]]) (\<lambda>enc.
     bnd (set_encoders L combined enc) (\<lambda>_.
     ret (model, A, B, combined, prod_ens)))))"

text \<open>Step 2: the two input nodes and the reference signal.\<close>

definition cell_step2 :: "'e library \<Rightarrow> ref \<Rightarrow> ('e, ref \<times> ref \<times> process) nb" where
  "cell_step2 L model =
     with_network model
       (bnd (Piecewise L inputA_data) (\<lambda>pA.
        bnd (Node L (Some pA) None) (\<lambda>inputA.
        bnd (Piecewise L inputB_data) (\<lambda>pB.
        bnd (Node L (Some pB) None) (\<lambda>inputB.
        bnd (Piecewise L correct_ans_data) (\<lambda>correct_ans.
        ret (inputA, inputB, correct_ans)))))))"

text \<open>Step 3: the five connections; only the last is given \<^verbatim>\<open>function=product\<close>.\<close>

definition cell_step3 ::
  "'e library \<Rightarrow> ref \<Rightarrow> ref \<Rightarrow> ref \<Rightarrow> ref \<Rightarrow> ref \<Rightarrow> ref \<Rightarrow> ref \<Rightarrow> ('e, unit) nb" where
  "cell_step3 L model inputA inputB A B combined prod_ens =
     with_network model
       (bnd (Connection L (Obj inputA) (Obj A) None SynapseDefault) (\<lambda>_.
        bnd (Connection L (Obj inputB) (Obj B) None SynapseDefault) (\<lambda>_.
        bnd (obj_getitem L combined 0) (\<lambda>combined0.
        bnd (Connection L (Obj A) combined0 None SynapseDefault) (\<lambda>_.
        bnd (obj_getitem L combined 1) (\<lambda>combined1.
        bnd (Connection L (Obj B) combined1 None SynapseDefault) (\<lambda>_.
        bnd (Connection L (Obj combined) (Obj prod_ens) (Some product) SynapseDefault) (\<lambda>_.
        ret ()))))))))"

text \<open>Step 4: the six probes.\<close>

definition cell_step4 ::
  "'e library \<Rightarrow> ref \<Rightarrow> ref \<Rightarrow> ref \<Rightarrow> ref \<Rightarrow> ref \<Rightarrow> ref \<Rightarrow> ref
     \<Rightarrow> ('e, ref \<times> ref \<times> ref \<times> ref \<times> ref \<times> ref) nb" where
  "cell_step4 L model inputA inputB A B combined prod_ens =
     with_network model
       (bnd (Probe L (Obj inputA) SynapseDefault) (\<lambda>inputA_probe.
        bnd (Probe L (Obj inputB) SynapseDefault) (\<lambda>inputB_probe.
        bnd (Probe L (Obj A) (SynapseTau 0.01)) (\<lambda>A_probe.
        bnd (Probe L (Obj B) (SynapseTau 0.01)) (\<lambda>B_probe.
        bnd (Probe L (Obj combined) (SynapseTau 0.01)) (\<lambda>combined_probe.
        bnd (Probe L (Obj prod_ens) (SynapseTau 0.01)) (\<lambda>prod_probe.
        ret (inputA_probe, inputB_probe, A_probe, B_probe, combined_probe, prod_probe))))))))"

text \<open>Step 5: build the simulator and run it for 5 seconds.\<close>

definition cell_step5 :: "'e library \<Rightarrow> ref \<Rightarrow> ('e, ref) nb" where
  "cell_step5 L model =
     bnd (Simulator L model) (\<lambda>sim.
     bnd (with_simulator sim (sim_run L sim 5)) (\<lambda>_.
     ret sim))"

text \<open>
  Step 6: the plots. The bonus cell ends with the same eleven lines, run on the names
  it has rebound.
\<close>

definition cell_step6 ::
  "'e library \<Rightarrow> ref \<Rightarrow> ref \<Rightarrow> ref \<Rightarrow> ref \<Rightarrow> process \<Rightarrow> ('e, unit) nb" where
  "cell_step6 L sim A_probe B_probe prod_probe correct_ans =
     bnd (plt_figure L) (\<lambda>_.
     bnd (sim_trange L sim) (\<lambda>t.
     bnd (sim_data L sim A_probe) (\<lambda>y.
     bnd (plt_plot L t y [(''label'', ''Decoded A'')]) (\<lambda>_.
     bnd (sim_trange L sim) (\<lambda>t.
     bnd (sim_data L sim B_probe) (\<lambda>y.
     bnd (plt_plot L t y [(''label'', ''Decoded B'')]) (\<lambda>_.
     bnd (sim_trange L sim) (\<lambda>t.
     bnd (sim_data L sim prod_probe) (\<lambda>y.
     bnd (plt_plot L t y [(''label'', ''Decoded product'')]) (\<lambda>_.
     bnd (sim_trange L sim) (\<lambda>t.
     bnd (sim_time_of L sim) (\<lambda>time.
     bnd (sim_dt L sim) (\<lambda>dt.
     bnd (process_run L correct_ans time dt) (\<lambda>y.
     bnd (plt_plot L t y [(''c'', ''k''), (''label'', ''Actual product'')]) (\<lambda>_.
     bnd (plt_legend L [(''loc'', ''best'')]) (\<lambda>_.
          plt_ylim L (- 25) 25))))))))))))))))"

text \<open>
  The subnetwork constructor \<^verbatim>\<open>Product(neuron_per_dimension, input_magnitude)\<close> of the
  bonus cell. It returns the network together with the attributes \<^verbatim>\<open>A\<close>, \<^verbatim>\<open>B\<close>,
  \<^verbatim>\<open>combined\<close> and \<^verbatim>\<open>prod\<close> it has set on it.

  The arithmetic on the arguments (\<^verbatim>\<open>neuron_per_dimension * 2\<close>,
  \<^verbatim>\<open>input_magnitude**2 + input_magnitude**2\<close>, \<^verbatim>\<open>input_magnitude * 2\<close>) is exact here, as it
  is in Python for the integers 100 and 10 that the notebook's only call passes. For a
  Python float of very large magnitude \<^verbatim>\<open>input_magnitude**2\<close> raises \<^verbatim>\<open>OverflowError\<close>
  before \<^verbatim>\<open>np.sqrt\<close> is called; the definition has no such branch. For arbitrary
  arguments it is therefore used only to say what a run that completes has built; how
  runs fail is stated for \<open>Product L 100 10\<close> only.
\<close>

record product_network =
  net :: ref
  net_A :: ref
  net_B :: ref
  net_combined :: ref
  net_prod :: ref

definition Product :: "'e library \<Rightarrow> int \<Rightarrow> real \<Rightarrow> ('e, product_network) nb" where
  "Product L neuron_per_dimension input_magnitude =
     bnd (Network L ''Product'') (\<lambda>model.
     with_network model
       (bnd (Node L None (Some 1)) (\<lambda>model_A.
        bnd (Node L None (Some 1)) (\<lambda>model_B.
        bnd (np_sqrt L (input_magnitude ^ 2 + input_magnitude ^ 2)) (\<lambda>r.
        bnd (Choice L [[1, 1], [- 1, 1], [1, - 1], [- 1, - 1]]) (\<lambda>enc.
        bnd (Ensemble L (neuron_per_dimension * 2) 2 r (Some enc)) (\<lambda>model_combined.
        bnd (Ensemble L neuron_per_dimension 1 (input_magnitude * 2) None) (\<lambda>model_prod.
        bnd (obj_getitem L model_combined 0) (\<lambda>combined0.
        bnd (Connection L (Obj model_A) combined0 None SynapseNone) (\<lambda>_.
        bnd (obj_getitem L model_combined 1) (\<lambda>combined1.
        bnd (Connection L (Obj model_B) combined1 None SynapseNone) (\<lambda>_.
        bnd (Connection L (Obj model_combined) (Obj model_prod) (Some product_sub)
               SynapseDefault) (\<lambda>_.
        ret \<lparr>net = model, net_A = model_A, net_B = model_B,
             net_combined = model_combined, net_prod = model_prod\<rparr>)))))))))))))"

text \<open>
  The bonus cell after the definition of \<^verbatim>\<open>Product\<close>: the model rebuilt around
  \<^verbatim>\<open>Product(100, input_magnitude=10)\<close>, simulated and plotted. It still reads
  \<^verbatim>\<open>correct_ans\<close> of Step 2.
\<close>

definition cell_bonus ::
  "'e library \<Rightarrow> process \<Rightarrow> ('e, ref \<times> ref \<times> ref \<times> product_network) nb" where
  "cell_bonus L correct_ans =
     bnd (Network L ''Multiplication'') (\<lambda>model.
     bnd (with_network model
            (bnd (Piecewise L inputA_data) (\<lambda>pA.
             bnd (Node L (Some pA) None) (\<lambda>inputA.
             bnd (Piecewise L inputB_data) (\<lambda>pB.
             bnd (Node L (Some pB) None) (\<lambda>inputB.
             bnd (Ensemble L 100 1 10 None) (\<lambda>A.
             bnd (Ensemble L 100 1 10 None) (\<lambda>B.
             bnd (Product L 100 10) (\<lambda>prod_net.
             bnd (Connection L (Obj inputA) (Obj A) None SynapseDefault) (\<lambda>_.
             bnd (Connection L (Obj inputB) (Obj B) None SynapseDefault) (\<lambda>_.
             bnd (Connection L (Obj A) (Obj (net_A prod_net)) None SynapseDefault) (\<lambda>_.
             bnd (Connection L (Obj B) (Obj (net_B prod_net)) None SynapseDefault) (\<lambda>_.
             bnd (Probe L (Obj inputA) SynapseDefault) (\<lambda>inputA_probe.
             bnd (Probe L (Obj inputB) SynapseDefault) (\<lambda>inputB_probe.
             bnd (Probe L (Obj A) (SynapseTau 0.01)) (\<lambda>A_probe.
             bnd (Probe L (Obj B) (SynapseTau 0.01)) (\<lambda>B_probe.
             bnd (Probe L (Obj (net_combined prod_net)) (SynapseTau 0.01)) (\<lambda>combined_probe.
             bnd (Probe L (Obj (net_prod prod_net)) (SynapseTau 0.01)) (\<lambda>prod_probe.
             ret (A, B, prod_net, A_probe, B_probe, prod_probe))))))))))))))))))))
       (\<lambda>(A, B, prod_net, A_probe, B_probe, prod_probe).
     bnd (Simulator L model) (\<lambda>sim.
     bnd (with_simulator sim (sim_run L sim 5)) (\<lambda>_.
     bnd (cell_step6 L sim A_probe B_probe prod_probe correct_ans) (\<lambda>_.
     ret (model, A, B, prod_net))))))"

text \<open>
  The flat model: the cells from the imports to Step 6, run in order from a fresh
  session. The result keeps the names bound by Steps 1 and 2.
\<close>

definition flat_model ::
  "'e library \<Rightarrow> ('e, (ref \<times> ref \<times> ref \<times> ref \<times> ref) \<times> (ref \<times> ref \<times> process)) nb" where
  "flat_model L =
     bnd (cell_imports L) (\<lambda>_.
     bnd (cell_step1 L) (\<lambda>(model, A, B, combined, prod_ens).
     bnd (cell_step2 L model) (\<lambda>(inputA, inputB, correct_ans).
     bnd (cell_step3 L model inputA inputB A B combined prod_ens) (\<lambda>_.
     bnd (cell_step4 L model inputA inputB A B combined prod_ens)
       (\<lambda>(inputA_probe, inputB_probe, A_probe, B_probe, combined_probe, prod_probe).
     bnd (cell_step5 L model) (\<lambda>sim.
     bnd (cell_step6 L sim A_probe B_probe prod_probe correct_ans) (\<lambda>_.
     ret ((model, A, B, combined, prod_ens), (inputA, inputB, correct_ans)))))))))"

text \<open>The whole notebook: the flat model, then the bonus cell.\<close>

definition notebook ::
  "'e library \<Rightarrow> ('e, (ref \<times> ref \<times> ref \<times> ref \<times> ref) \<times> (ref \<times> ref \<times> ref \<times> product_network)) nb"
  where
  "notebook L =
     bnd (flat_model L) (\<lambda>(flat, (inputA, inputB, correct_ans)).
     bnd (cell_bonus L correct_ans) (\<lambda>bonus.
     ret (flat, bonus)))"

subsection \<open>Reading a network\<close>

definition lookup :: "kernel \<Rightarrow> ref \<Rightarrow> obj option" where
  "lookup k r = (if r < length (store k) then Some (store k ! r) else None)"

definition members_of :: "kernel \<Rightarrow> ref \<Rightarrow> ref list" where
  "members_of k n = (case lookup k n of Some (NetworkObj nw) \<Rightarrow> members nw | _ \<Rightarrow> [])"

text \<open>The ensembles declared in a network, in the order of declaration.\<close>

definition net_ensembles :: "kernel \<Rightarrow> ref \<Rightarrow> (ref \<times> ensemble) list" where
  "net_ensembles k n =
     List.map_filter
       (\<lambda>r. case lookup k r of Some (EnsembleObj e) \<Rightarrow> Some (r, e) | _ \<Rightarrow> None)
       (members_of k n)"

text \<open>The connections declared in a network, in the order of declaration.\<close>

definition net_connections :: "kernel \<Rightarrow> ref \<Rightarrow> connection list" where
  "net_connections k n =
     List.map_filter
       (\<lambda>r. case lookup k r of Some (ConnectionObj c) \<Rightarrow> Some c | _ \<Rightarrow> None)
       (members_of k n)"

subsection \<open>Errors and the history of calls\<close>

text \<open>Every call of the history was accepted by the library when it was made.\<close>

definition accepted :: "'e library \<Rightarrow> api_call list \<Rightarrow> bool" where
  "accepted L h = (\<forall>i < length h. L (take i h) (h ! i) = None)"

text \<open>
  The last call of the history is the one at which the library raised \<open>e\<close>; every call
  before it was accepted.
\<close>

definition raised_by_last_call :: "'e library \<Rightarrow> api_call list \<Rightarrow> 'e \<Rightarrow> bool" where
  "raised_by_last_call L h e =
     (h \<noteq> [] \<and> accepted L (butlast h) \<and> L (butlast h) (last h) = Some e)"

text \<open>
  A piece of code lets errors through: started in a session where no call has failed,
  it either completes with every call accepted, or ends with exactly the error the
  library raised at the last call it made.
\<close>

definition propagates :: "'e library \<Rightarrow> ('e, 'a) nb \<Rightarrow> bool" where
  "propagates L m =
     (\<forall>k. accepted L (history k) \<longrightarrow>
        (case m k of
           (Inr x, k') \<Rightarrow> accepted L (history k')
         | (Inl e, k') \<Rightarrow> raised_by_last_call L (history k') e))"

text \<open>Whenever the first piece of code completes, the second completes alike.\<close>

definition completes_alike :: "('e, 'a) nb \<Rightarrow> ('f, 'a) nb \<Rightarrow> bool" where
  "completes_alike m m' = (\<forall>k x k'. m k = (Inr x, k') \<longrightarrow> m' k = (Inr x, k'))"

section \<open>Properties\<close>

subsection \<open>Properties of \<open>product\<close>\<close>

lemma product_pair: "product [a, b] = Inr (a * b)"
  by (simp add: product_def getitem_def)


lemma product_short: "length x < 2 \<Longrightarrow> product x = Inl IndexError"
  by (cases x) (auto simp: product_def getitem_def)

subsection \<open>Properties of piecewise signals\<close>

lemma latest_breakpoint_mem:
  "latest_breakpoint d t = Some (k, v) \<Longrightarrow> (k, v) \<in> set d \<and> k \<le> t"
  by (induction d arbitrary: k v) (auto split: option.splits if_splits)

lemma latest_breakpoint_None:
  "latest_breakpoint d t = None \<longleftrightarrow> (\<forall>p \<in> set d. t < fst p)"
  by (induction d) (auto split: option.splits if_splits)

lemma latest_breakpoint_greatest:
  "latest_breakpoint d t = Some (k, v) \<Longrightarrow> (k', v') \<in> set d \<Longrightarrow> k' \<le> t \<Longrightarrow> k' \<le> k"
proof (induction d arbitrary: k v)
  case Nil
  then show ?case by simp
next
  case (Cons p d)
  obtain pk pv where p: "p = (pk, pv)" by (cases p)
  show ?case
  proof (cases "latest_breakpoint d t")
    case None
    then have "\<forall>p \<in> set d. t < fst p" by (simp add: latest_breakpoint_None)
    with Cons.prems None p show ?thesis by (auto split: if_splits)
  next
    case (Some q)
    obtain qk qv where q: "q = (qk, qv)" by (cases q)
    have ih: "(k', v') \<in> set d \<Longrightarrow> k' \<le> qk"
      using Cons.IH [of qk qv] Cons.prems(3) Some q by simp
    from Cons.prems Some p q ih show ?thesis
      by (auto split: if_splits)
  qed
qed

lemma Piecewise_at_holds:
  assumes dist: "distinct (map fst d)"
    and mem: "(k, v) \<in> set d"
    and le: "k \<le> t"
    and gap: "\<forall>k' \<in> fst ` set d. k' \<le> t \<longrightarrow> k' \<le> k"
  shows "Piecewise_at d t = Some v"
proof -
  from mem le have "latest_breakpoint d t \<noteq> None"
    by (auto simp: latest_breakpoint_None intro!: bexI [of _ "(k, v)"])
  then obtain k0 v0 where l: "latest_breakpoint d t = Some (k0, v0)" by auto
  from latest_breakpoint_mem [OF l] have m0: "(k0, v0) \<in> set d" and le0: "k0 \<le> t"
    by simp_all
  from latest_breakpoint_greatest [OF l mem le] have "k \<le> k0" .
  moreover from gap m0 le0 have "k0 \<le> k" by force
  ultimately have "k0 = k" by simp
  with dist mem m0 have "v0 = v"
    by (meson eq_key_imp_eq_value)
  with l show ?thesis by (simp add: Piecewise_at_def)
qed

lemma inputA_values:
  "0 \<le> t \<Longrightarrow> t < 2.5 \<Longrightarrow> Piecewise_at inputA_data t = Some 0"
  "2.5 \<le> t \<Longrightarrow> t < 4 \<Longrightarrow> Piecewise_at inputA_data t = Some 10"
  "4 \<le> t \<Longrightarrow> Piecewise_at inputA_data t = Some (- 10)"
  by (auto simp: Piecewise_at_def inputA_data_def)

lemma inputB_values:
  "0 \<le> t \<Longrightarrow> t < 1.5 \<Longrightarrow> Piecewise_at inputB_data t = Some 10"
  "1.5 \<le> t \<Longrightarrow> t < 3 \<Longrightarrow> Piecewise_at inputB_data t = Some 2"
  "3 \<le> t \<Longrightarrow> t < 4.5 \<Longrightarrow> Piecewise_at inputB_data t = Some 0"
  "4.5 \<le> t \<Longrightarrow> Piecewise_at inputB_data t = Some 2"
  by (auto simp: Piecewise_at_def inputB_data_def)

lemma correct_ans_values:
  "0 \<le> t \<Longrightarrow> t < 2.5 \<Longrightarrow> Piecewise_at correct_ans_data t = Some 0"
  "2.5 \<le> t \<Longrightarrow> t < 3 \<Longrightarrow> Piecewise_at correct_ans_data t = Some 20"
  "3 \<le> t \<Longrightarrow> t < 4.5 \<Longrightarrow> Piecewise_at correct_ans_data t = Some 0"
  "4.5 \<le> t \<Longrightarrow> Piecewise_at correct_ans_data t = Some (- 20)"
  by (auto simp: Piecewise_at_def correct_ans_data_def)

lemma distinct_breakpoints:
  "distinct (map fst inputA_data)"
  "distinct (map fst inputB_data)"
  "distinct (map fst correct_ans_data)"
  by (simp_all add: inputA_data_def inputB_data_def correct_ans_data_def)

text \<open>
  Claim C1. At every time \<open>t\<close> with \<open>0 \<le> t < 5\<close>, both inputs and the reference signal
  \<^verbatim>\<open>correct_ans\<close> have a value, and the value of \<^verbatim>\<open>correct_ans\<close> is the product of the
  value of the first input (\<^verbatim>\<open>{0: 0, 2.5: 10, 4: -10}\<close>) and the value of the second
  input (\<^verbatim>\<open>{0: 10, 1.5: 2, 3: 0, 4.5: 2}\<close>), each signal taking the value of its latest
  breakpoint at or before \<open>t\<close>.
\<close>

theorem correct_ans_is_pointwise_product:
  assumes "0 \<le> t" and "t < 5"
  shows "\<exists>a b. Piecewise_at inputA_data t = Some a \<and> Piecewise_at inputB_data t = Some b
           \<and> Piecewise_at correct_ans_data t = Some (a * b)"
proof -
  consider "t < 1.5" | "1.5 \<le> t" "t < 2.5" | "2.5 \<le> t" "t < 3" | "3 \<le> t" "t < 4"
    | "4 \<le> t" "t < 4.5" | "4.5 \<le> t"
    by linarith
  then show ?thesis
  proof cases
    case 1
    with assms show ?thesis by (simp add: inputA_values inputB_values correct_ans_values)
  next
    case 2
    with assms show ?thesis by (simp add: inputA_values inputB_values correct_ans_values)
  next
    case 3
    with assms show ?thesis by (simp add: inputA_values inputB_values correct_ans_values)
  next
    case 4
    with assms show ?thesis by (simp add: inputA_values inputB_values correct_ans_values)
  next
    case 5
    with assms show ?thesis by (simp add: inputA_values inputB_values correct_ans_values)
  next
    case 6
    with assms show ?thesis by (simp add: inputA_values inputB_values correct_ans_values)
  qed
qed

text \<open>
  The theorem at \<open>t = 2.75\<close>, inside the only interval before \<open>4.5\<close> where neither input
  is zero: the inputs are 10 and 2, the reference is 20.
\<close>

theorem correct_ans_is_pointwise_product_witness:
  "(0::real) \<le> 2.75 \<and> (2.75::real) < 5 \<and> Piecewise_at inputA_data 2.75 = Some 10
   \<and> Piecewise_at inputB_data 2.75 = Some 2 \<and> Piecewise_at correct_ans_data 2.75 = Some 20"
proof -
  have h: "(0::real) \<le> 2.75" "(2.75::real) < 5" by simp_all
  from correct_ans_is_pointwise_product [OF h] h show ?thesis
    by (simp add: inputA_values inputB_values)
qed

text \<open>
  Claim C4. Each of the three piecewise signals of the notebook (the two inputs and
  \<^verbatim>\<open>correct_ans\<close>) is constant between consecutive breakpoints: when \<open>k1 < k2\<close> are time
  offsets of the mapping with no other offset strictly between them, and \<open>t\<close> lies
  between them (\<open>k1 \<le> t < k2\<close>), the value at \<open>t\<close> is the value the mapping gives
  to the earlier offset \<open>k1\<close>.
\<close>

theorem piecewise_constant_between_breakpoints:
  assumes d: "d \<in> {inputA_data, inputB_data, correct_ans_data}"
    and k1: "(k1, v1) \<in> set d"
    and k2: "k2 \<in> fst ` set d"
    and consecutive: "k1 < k2" "\<forall>k \<in> fst ` set d. \<not> (k1 < k \<and> k < k2)"
    and t: "k1 \<le> t" "t < k2"
  shows "Piecewise_at d t = Some v1"
proof -
  from d have "distinct (map fst d)" using distinct_breakpoints by auto
  moreover have "\<forall>k' \<in> fst ` set d. k' \<le> t \<longrightarrow> k' \<le> k1"
    using consecutive(2) t by force
  ultimately show ?thesis using k1 t(1) by (intro Piecewise_at_holds)
qed

text \<open>
  The theorem for the second input between its breakpoints \<open>1.5\<close> and \<open>3\<close>, at \<open>t = 2\<close>.
\<close>

theorem piecewise_constant_between_breakpoints_witness:
  "inputB_data \<in> {inputA_data, inputB_data, correct_ans_data} \<and> (1.5, 2) \<in> set inputB_data
   \<and> 3 \<in> fst ` set inputB_data \<and> (1.5::real) < 3
   \<and> [k \<leftarrow> map fst inputB_data. 1.5 < k \<and> k < 3] = []
   \<and> (1.5::real) \<le> 2 \<and> (2::real) < 3 \<and> Piecewise_at inputB_data 2 = Some 2"
proof -
  have a: "inputB_data \<in> {inputA_data, inputB_data, correct_ans_data}" by simp
  have b: "(1.5, 2) \<in> set inputB_data" by (simp add: inputB_data_def)
  have c: "3 \<in> fst ` set inputB_data" by (simp add: inputB_data_def)
  have e: "\<forall>k \<in> fst ` set inputB_data. \<not> (1.5 < k \<and> k < 3)" by (simp add: inputB_data_def)
  have f: "(1.5::real) < 3" "(1.5::real) \<le> 2" "(2::real) < 3" by simp_all
  have g: "[k \<leftarrow> map fst inputB_data. 1.5 < k \<and> k < 3] = []"
    by (simp add: inputB_data_def)
  from piecewise_constant_between_breakpoints [OF a b c f(1) e f(2) f(3)] a b c f g
  show ?thesis by blast
qed


text \<open>
  Claim C10. \<^verbatim>\<open>product\<close> annihilates zero: \<^verbatim>\<open>product([a, 0]) = 0\<close> and
  \<^verbatim>\<open>product([0, a]) = 0\<close> for every number \<open>a\<close>. Hence at every time at which one of
  the two piecewise inputs holds the value 0, the target signal, \<^verbatim>\<open>product\<close> applied to
  the pair of input values, is exactly 0.
\<close>

theorem product_annihilates_zero:
  "product [a, 0] = Inr 0 \<and> product [0, a] = Inr 0 \<and>
   (\<forall>t x y. Piecewise_at inputA_data t = Some x \<longrightarrow> Piecewise_at inputB_data t = Some y \<longrightarrow>
      (x = 0 \<or> y = 0) \<longrightarrow> product [x, y] = Inr 0)"
  by (auto simp: product_pair)

text \<open>
  The theorem at \<open>t = 1\<close>, where the first input holds 0 and the second holds 10, and at
  \<open>t = 3.5\<close>, where the first holds 10 and the second holds 0.
\<close>

theorem product_annihilates_zero_witness:
  "Piecewise_at inputA_data 1 = Some 0 \<and> Piecewise_at inputB_data 1 = Some 10
   \<and> product [0, 10] = Inr 0
   \<and> Piecewise_at inputA_data 3.5 = Some 10 \<and> Piecewise_at inputB_data 3.5 = Some 0
   \<and> product [10, 0] = Inr 0"
proof -
  have a: "Piecewise_at inputA_data 1 = Some 0" "Piecewise_at inputB_data 1 = Some 10"
    by (simp_all add: inputA_values inputB_values)
  have b: "Piecewise_at inputA_data 3.5 = Some 10" "Piecewise_at inputB_data 3.5 = Some 0"
    by (simp_all add: inputA_values inputB_values)
  from product_annihilates_zero [of 0] a b show ?thesis by blast
qed

subsection \<open>Properties of the layout\<close>

lemma code_cells_eq:
  "code_cells =
     [cells ! 1, cells ! 3, cells ! 5, cells ! 7, cells ! 9, cells ! 11, cells ! 13, cells ! 16]"
  by (simp add: code_cells_def cells_def markdown_cell_def code_cell_def)

lemma length_code_cells: "length code_cells = 8"
  by (simp add: code_cells_eq)


lemma free_names_code_cells:
  "map free_names code_cells =
    [[], [''nengo'', ''Choice''], [''model'', ''nengo'', ''Piecewise''],
     [''model'', ''nengo'', ''inputA'', ''A'', ''inputB'', ''B'', ''combined'', ''prod''],
     [''model'', ''nengo'', ''inputA'', ''inputB'', ''A'', ''B'', ''combined'', ''prod''],
     [''nengo'', ''model''],
     [''plt'', ''sim'', ''A_probe'', ''B_probe'', ''prod_probe'', ''correct_ans''],
     [''nengo'', ''np'', ''Choice'', ''Piecewise'', ''plt'', ''correct_ans'']]"
  by (simp add: code_cells_eq cells_def free_names_def code_cell_def)

lemma binds_code_cells:
  "map binds code_cells =
    [[''plt'', ''np'', ''nengo'', ''Choice'', ''Piecewise''],
     [''model'', ''A'', ''B'', ''combined'', ''prod''],
     [''inputA'', ''inputB'', ''correct_ans''],
     [''product''],
     [''inputA_probe'', ''inputB_probe'', ''A_probe'', ''B_probe'', ''combined_probe'',
      ''prod_probe''],
     [''sim''],
     [],
     [''Product'', ''model'', ''inputA'', ''inputB'', ''A'', ''B'', ''prod'',
      ''inputA_probe'', ''inputB_probe'', ''A_probe'', ''B_probe'', ''combined_probe'',
      ''prod_probe'', ''sim'']]"
  by (simp add: code_cells_eq cells_def code_cell_def)

lemma free_names_nth:
  "N < 8 \<Longrightarrow> free_names (code_cells ! N) = map free_names code_cells ! N"
  by (simp add: length_code_cells)

lemma bound_before_eq: "bound_before N = concat (take N (map binds code_cells))"
  by (simp add: bound_before_def take_map)


text \<open>
  Claim C5, as stated: the notebook has at least four and at most six code cells.
  It has eight, so the statement is false.
\<close>

theorem code_cell_count_not_four_to_six:
  "\<not> (4 \<le> length code_cells \<and> length code_cells \<le> 6)"
  by (simp add: length_code_cells)

text \<open>
  Claim C5, amended: the notebook consists of markdown cells interleaved with exactly
  eight sequential code cells; every code cell stands between two markdown cells.
\<close>

theorem code_cell_count_is_eight:
  "length code_cells = 8 \<and>
   map cell_type cells =
     [markdown, code, markdown, code, markdown, code, markdown, code, markdown, code,
      markdown, code, markdown, code, markdown, markdown, code, markdown]"
  by (simp add: length_code_cells) (simp add: cells_def markdown_cell_def code_cell_def)

text \<open>
  Claim C6, as stated: every name a code cell uses without creating it was created in
  the code cell just before. The plotting cell of Step 6 (code cell 6, counted from 0)
  uses \<^verbatim>\<open>correct_ans\<close>, which the cell of Step 5 before it does not create: it comes from
  the cell of Step 2, four code cells earlier.
\<close>

theorem correct_ans_not_from_preceding_cell:
  "''correct_ans'' \<in> set (free_names (code_cells ! 6))
   \<and> ''correct_ans'' \<notin> set (binds (code_cells ! 5))
   \<and> ''correct_ans'' \<in> set (binds (code_cells ! 2))"
  by (simp add: code_cells_eq cells_def free_names_def code_cell_def)

text \<open>
  Claim C6, amended: every name a code cell uses without creating it was created in
  some earlier code cell, not necessarily the one just before.
\<close>

theorem free_names_bound_earlier:
  "\<forall>N < length code_cells. set (free_names (code_cells ! N)) \<subseteq> set (bound_before N)"
proof (intro allI impI)
  fix N assume "N < length code_cells"
  then have N: "N < 8" by (simp add: length_code_cells)
  then consider "N = 0" | "N = 1" | "N = 2" | "N = 3" | "N = 4" | "N = 5" | "N = 6" | "N = 7"
    by linarith
  then show "set (free_names (code_cells ! N)) \<subseteq> set (bound_before N)"
  proof cases
    case 1 then show ?thesis
      unfolding free_names_nth [OF N] bound_before_eq free_names_code_cells binds_code_cells
      by simp
  next
    case 2 then show ?thesis
      unfolding free_names_nth [OF N] bound_before_eq free_names_code_cells binds_code_cells
      by simp
  next
    case 3 then show ?thesis
      unfolding free_names_nth [OF N] bound_before_eq free_names_code_cells binds_code_cells
      by simp
  next
    case 4 then show ?thesis
      unfolding free_names_nth [OF N] bound_before_eq free_names_code_cells binds_code_cells
      by simp
  next
    case 5 then show ?thesis
      unfolding free_names_nth [OF N] bound_before_eq free_names_code_cells binds_code_cells
      by simp
  next
    case 6 then show ?thesis
      unfolding free_names_nth [OF N] bound_before_eq free_names_code_cells binds_code_cells
      by simp
  next
    case 7 then show ?thesis
      unfolding free_names_nth [OF N] bound_before_eq free_names_code_cells binds_code_cells
      by simp
  next
    case 8 then show ?thesis
      unfolding free_names_nth [OF N] bound_before_eq free_names_code_cells binds_code_cells
      by simp
  qed
qed

text \<open>
  The theorem at the plotting cell of Step 6: it uses \<^verbatim>\<open>correct_ans\<close>, \<^verbatim>\<open>plt\<close> and
  \<^verbatim>\<open>prod_probe\<close> without creating them, and all three were created before it.
\<close>

theorem free_names_bound_earlier_witness:
  "6 < length code_cells
   \<and> set [''correct_ans'', ''plt'', ''prod_probe''] \<subseteq> set (free_names (code_cells ! 6))
   \<and> set [''correct_ans'', ''plt'', ''prod_probe''] \<subseteq> set (bound_before 6)"
proof -
  have a: "6 < length code_cells" by (simp add: length_code_cells)
  have b: "set [''correct_ans'', ''plt'', ''prod_probe''] \<subseteq> set (free_names (code_cells ! 6))"
    by (simp add: code_cells_eq cells_def free_names_def code_cell_def)
  from free_names_bound_earlier a
  have "set (free_names (code_cells ! 6)) \<subseteq> set (bound_before 6)" by blast
  with a b show ?thesis by blast
qed

subsection \<open>Running notebook code\<close>

lemma bnd_Inr: "m k = (Inr x, k') \<Longrightarrow> bnd m f k = f x k'"
  by (simp add: bnd_def)

lemma bnd_Inl: "m k = (Inl e, k') \<Longrightarrow> bnd m f k = (Inl e, k')"
  by (simp add: bnd_def)

lemma bnd_weak_cong: "m = m' \<Longrightarrow> bnd m f = bnd m' f"
  by simp

lemmas library_defs = magic_def import_module_def Network_def Ensemble_def Choice_def
  set_encoders_def Piecewise_def Node_def obj_getitem_def Connection_def Probe_def
  Simulator_def sim_run_def sim_trange_def sim_data_def sim_time_of_def sim_dt_def
  process_run_def np_sqrt_def plt_figure_def plt_plot_def plt_legend_def plt_ylim_def

lemmas effect_defs = pure_result_def new_object_def add_to_network_def add_member_def
  update_object_def put_encoders_def advance_def set_closed_def

lemmas cell_defs = cell_imports_def cell_step1_def cell_step2_def cell_step3_def
  cell_step4_def cell_step5_def cell_step6_def

lemmas run_defs = library_defs effect_defs lib_call_def ret_def with_network_def
  with_simulator_def

subsection \<open>Completing under any library\<close>

lemma completes_alike_ret: "completes_alike (ret x) (ret x)"
  by (simp add: completes_alike_def ret_def)

lemma completes_alike_lib_call:
  "completes_alike (lib_call L c effect) (lib_call no_failure c effect)"
  by (auto simp: completes_alike_def lib_call_def no_failure_def split: option.splits prod.splits)

lemma completes_alike_bnd:
  assumes "completes_alike m m'" and "\<And>x. completes_alike (f x) (f' x)"
  shows "completes_alike (bnd m f) (bnd m' f')"
  unfolding completes_alike_def
proof (intro allI impI)
  fix k :: kernel and y k''
  assume run: "bnd m f k = (Inr y, k'')"
  obtain r k' where mk: "m k = (r, k')" by (cases "m k")
  with run obtain x where r: "r = Inr x" by (cases r) (auto simp: bnd_def)
  with run mk have "f x k' = (Inr y, k'')" by (simp add: bnd_def)
  with assms(2) have "f' x k' = (Inr y, k'')" by (simp add: completes_alike_def)
  moreover from assms(1) mk r have "m' k = (Inr x, k')" by (simp add: completes_alike_def)
  ultimately show "bnd m' f' k = (Inr y, k'')" by (simp add: bnd_def)
qed

lemma completes_alike_with_network:
  assumes "completes_alike body body'"
  shows "completes_alike (with_network n body) (with_network n body')"
  using assms by (auto simp: completes_alike_def with_network_def split: prod.splits)

lemma completes_alike_with_simulator:
  assumes "completes_alike body body'"
  shows "completes_alike (with_simulator s body) (with_simulator s body')"
  using assms by (auto simp: completes_alike_def with_simulator_def split: prod.splits)

lemma completes_alike_case_prod:
  assumes "\<And>a b. completes_alike (f a b) (f' a b)"
  shows "completes_alike (case_prod f p) (case_prod f' p)"
  using assms by (cases p) simp

lemma completes_alikeD:
  "completes_alike m m' \<Longrightarrow> m k = (Inr x, k') \<Longrightarrow> m' k = (Inr x, k')"
  by (simp add: completes_alike_def)

lemmas completes_alike_intros = completes_alike_ret completes_alike_lib_call
  completes_alike_bnd completes_alike_with_network completes_alike_with_simulator
  completes_alike_case_prod

lemma completes_alike_cell_step6:
  "completes_alike (cell_step6 L sim A_probe B_probe prod_probe correct_ans)
     (cell_step6 no_failure sim A_probe B_probe prod_probe correct_ans)"
  unfolding cell_step6_def library_defs by (intro completes_alike_intros)

lemma completes_alike_Product: "completes_alike (Product L n m) (Product no_failure n m)"
  unfolding Product_def library_defs by (intro completes_alike_intros)

lemma completes_alike_flat_model: "completes_alike (flat_model L) (flat_model no_failure)"
  unfolding flat_model_def
  by (intro completes_alike_intros completes_alike_cell_step6)
    (unfold cell_defs library_defs, (intro completes_alike_intros)+)

lemma completes_alike_cell_bonus:
  "completes_alike (cell_bonus L correct_ans) (cell_bonus no_failure correct_ans)"
  unfolding cell_bonus_def
  by (intro completes_alike_intros completes_alike_Product completes_alike_cell_step6)
    (unfold library_defs, (intro completes_alike_intros)+)

lemma completes_alike_notebook: "completes_alike (notebook L) (notebook no_failure)"
  unfolding notebook_def
  by (intro completes_alike_intros completes_alike_flat_model completes_alike_cell_bonus)

subsection \<open>The session after the flat model\<close>

lemma flat_model_no_failure:
  "\<exists>h. flat_model no_failure kernel0 =
     (Inr ((0, 1, 2, 3, 4), (5, 6, PiecewiseProcess correct_ans_data)),
      \<lparr>store =
         [NetworkObj \<lparr>label = ''Multiplication'',
            members = [1, 2, 3, 4, 5, 6, 7, 8, 9, 10, 11, 12, 13, 14, 15, 16, 17]\<rparr>,
          EnsembleObj \<lparr>n_neurons = 100, dimensions = 1, radius = 10, encoders = None\<rparr>,
          EnsembleObj \<lparr>n_neurons = 100, dimensions = 1, radius = 10, encoders = None\<rparr>,
          EnsembleObj \<lparr>n_neurons = 220, dimensions = 2, radius = 15,
            encoders = Some (ChoiceDist [[1, 1], [- 1, 1], [1, - 1], [- 1, - 1]])\<rparr>,
          EnsembleObj \<lparr>n_neurons = 100, dimensions = 1, radius = 20, encoders = None\<rparr>,
          NodeObj \<lparr>node_output = Some (PiecewiseProcess inputA_data), size_in = None\<rparr>,
          NodeObj \<lparr>node_output = Some (PiecewiseProcess inputB_data), size_in = None\<rparr>,
          ConnectionObj \<lparr>pre = Obj 5, post = Obj 1, conn_function = None,
            conn_synapse = SynapseDefault\<rparr>,
          ConnectionObj \<lparr>pre = Obj 6, post = Obj 2, conn_function = None,
            conn_synapse = SynapseDefault\<rparr>,
          ConnectionObj \<lparr>pre = Obj 1, post = View 3 0, conn_function = None,
            conn_synapse = SynapseDefault\<rparr>,
          ConnectionObj \<lparr>pre = Obj 2, post = View 3 1, conn_function = None,
            conn_synapse = SynapseDefault\<rparr>,
          ConnectionObj \<lparr>pre = Obj 3, post = Obj 4, conn_function = Some product,
            conn_synapse = SynapseDefault\<rparr>,
          ProbeObj \<lparr>target = Obj 5, probe_synapse = SynapseDefault\<rparr>,
          ProbeObj \<lparr>target = Obj 6, probe_synapse = SynapseDefault\<rparr>,
          ProbeObj \<lparr>target = Obj 1, probe_synapse = SynapseTau 0.01\<rparr>,
          ProbeObj \<lparr>target = Obj 2, probe_synapse = SynapseTau 0.01\<rparr>,
          ProbeObj \<lparr>target = Obj 3, probe_synapse = SynapseTau 0.01\<rparr>,
          ProbeObj \<lparr>target = Obj 4, probe_synapse = SynapseTau 0.01\<rparr>,
          SimulatorObj \<lparr>sim_network = 0, sim_time = 5, sim_closed = True\<rparr>],
       net_context = [], history = h\<rparr>)"
  by (simp add: flat_model_def cell_defs run_defs no_failure_def kernel0_def bnd_Inr bnd_Inl
      cong: bnd_weak_cong)

lemmas observe_defs = net_ensembles_def net_connections_def members_of_def lookup_def
  List.map_filter_def

lemmas body_defs = Ensemble_def Choice_def Node_def obj_getitem_def Connection_def np_sqrt_def
  effect_defs lib_call_def ret_def with_network_def

lemma Network_no_failure:
  "\<exists>T ms. length T = length S \<and> (ms = [] \<or> ms = [length T]) \<and>
     Network no_failure lbl \<lparr>store = S, net_context = C, history = h\<rparr> =
       (Inr (length T),
        \<lparr>store = T @ [NetworkObj \<lparr>label = lbl, members = ms\<rparr>], net_context = C,
         history = h @ [Network_call lbl]\<rparr>)"
proof (cases C)
  case Nil
  then show ?thesis
    by (simp add: Network_def lib_call_def effect_defs no_failure_def)
next
  case (Cons c C')
  consider "c < length S" | "c = length S" | "length S < c" by linarith
  then show ?thesis
  proof cases
    case 1
    with Cons show ?thesis
      by (intro exI [of _ "S[c := add_member (length S) (S ! c)]"] exI [of _ "[]"])
        (simp add: Network_def lib_call_def new_object_def add_to_network_def pure_result_def
          no_failure_def list_update_append1 nth_append)
  next
    case 2
    with Cons show ?thesis
      by (intro exI [of _ S] exI [of _ "[length S]"])
        (simp add: Network_def lib_call_def effect_defs no_failure_def)
  next
    case 3
    with Cons show ?thesis
      by (intro exI [of _ S] exI [of _ "[]"])
        (simp add: Network_def lib_call_def new_object_def add_to_network_def pure_result_def
          no_failure_def list_update_beyond)
  qed
qed

lemma Product_after_Network:
  assumes "Network (no_failure :: 'e library) ''Product'' k =
       (Inr (length T),
        \<lparr>store = T @ [NetworkObj \<lparr>label = ''Product'', members = ms\<rparr>], net_context = C,
         history = h\<rparr>)"
  shows "\<exists>h'. Product (no_failure :: 'e library) n m k =
    (Inr \<lparr>net = length T, net_A = length T + 1, net_B = length T + 2,
          net_combined = length T + 3, net_prod = length T + 4\<rparr>,
     \<lparr>store =
       T @ [NetworkObj \<lparr>label = ''Product'',
              members = ms @ [length T + 1, length T + 2, length T + 3, length T + 4,
                              length T + 5, length T + 6, length T + 7]\<rparr>,
            NodeObj \<lparr>node_output = None, size_in = Some 1\<rparr>,
            NodeObj \<lparr>node_output = None, size_in = Some 1\<rparr>,
            EnsembleObj
              \<lparr>n_neurons = n * 2, dimensions = 2, radius = sqrt (m ^ 2 + m ^ 2),
               encoders = Some (ChoiceDist [[1, 1], [- 1, 1], [1, - 1], [- 1, - 1]])\<rparr>,
            EnsembleObj \<lparr>n_neurons = n, dimensions = 1, radius = m * 2, encoders = None\<rparr>,
            ConnectionObj \<lparr>pre = Obj (length T + 1), post = View (length T + 3) 0,
              conn_function = None, conn_synapse = SynapseNone\<rparr>,
            ConnectionObj \<lparr>pre = Obj (length T + 2), post = View (length T + 3) 1,
              conn_function = None, conn_synapse = SynapseNone\<rparr>,
            ConnectionObj \<lparr>pre = Obj (length T + 3), post = Obj (length T + 4),
              conn_function = Some product_sub, conn_synapse = SynapseDefault\<rparr>],
      net_context = C, history = h'\<rparr>)"
  by (simp add: Product_def assms body_defs no_failure_def bnd_Inr bnd_Inl
      cong: bnd_weak_cong)


lemma Product_no_failure_ensembles:
  assumes run: "Product (no_failure :: 'e library) n m k = (Inr p, k')"
  shows "net_ensembles k' (net p) =
           [(net_combined p,
             \<lparr>n_neurons = n * 2, dimensions = 2, radius = sqrt (m ^ 2 + m ^ 2),
              encoders = Some (ChoiceDist [[1, 1], [- 1, 1], [1, - 1], [- 1, - 1]])\<rparr>),
            (net_prod p,
             \<lparr>n_neurons = n, dimensions = 1, radius = m * 2, encoders = None\<rparr>)]"
proof -
  obtain S C h where k: "k = \<lparr>store = S, net_context = C, history = h\<rparr>" by (cases k)
  from Network_no_failure [of S "''Product''" C h, where ?'a = 'e]
  obtain T ms where ms: "ms = [] \<or> ms = [length T]"
    and first: "Network (no_failure :: 'e library) ''Product'' k =
       (Inr (length T),
        \<lparr>store = T @ [NetworkObj \<lparr>label = ''Product'', members = ms\<rparr>], net_context = C,
         history = h @ [Network_call ''Product'']\<rparr>)"
    unfolding k by blast
  from Product_after_Network [OF first, of n m] run
  have p: "p = \<lparr>net = length T, net_A = length T + 1, net_B = length T + 2,
             net_combined = length T + 3, net_prod = length T + 4\<rparr>"
    and "store k' =
       T @ [NetworkObj \<lparr>label = ''Product'',
              members = ms @ [length T + 1, length T + 2, length T + 3, length T + 4,
                              length T + 5, length T + 6, length T + 7]\<rparr>,
            NodeObj \<lparr>node_output = None, size_in = Some 1\<rparr>,
            NodeObj \<lparr>node_output = None, size_in = Some 1\<rparr>,
            EnsembleObj
              \<lparr>n_neurons = n * 2, dimensions = 2, radius = sqrt (m ^ 2 + m ^ 2),
               encoders = Some (ChoiceDist [[1, 1], [- 1, 1], [1, - 1], [- 1, - 1]])\<rparr>,
            EnsembleObj \<lparr>n_neurons = n, dimensions = 1, radius = m * 2, encoders = None\<rparr>,
            ConnectionObj \<lparr>pre = Obj (length T + 1), post = View (length T + 3) 0,
              conn_function = None, conn_synapse = SynapseNone\<rparr>,
            ConnectionObj \<lparr>pre = Obj (length T + 2), post = View (length T + 3) 1,
              conn_function = None, conn_synapse = SynapseNone\<rparr>,
            ConnectionObj \<lparr>pre = Obj (length T + 3), post = Obj (length T + 4),
              conn_function = Some product_sub, conn_synapse = SynapseDefault\<rparr>]"
    by auto
  with ms show ?thesis
    by (auto simp: observe_defs nth_append)
qed

subsection \<open>The session after the bonus cell\<close>

lemma cell_bonus_no_failure:
  "\<exists>h'. cell_bonus no_failure (PiecewiseProcess correct_ans_data)
     \<lparr>store =
         [NetworkObj \<lparr>label = ''Multiplication'',
            members = [1, 2, 3, 4, 5, 6, 7, 8, 9, 10, 11, 12, 13, 14, 15, 16, 17]\<rparr>,
          EnsembleObj \<lparr>n_neurons = 100, dimensions = 1, radius = 10, encoders = None\<rparr>,
          EnsembleObj \<lparr>n_neurons = 100, dimensions = 1, radius = 10, encoders = None\<rparr>,
          EnsembleObj \<lparr>n_neurons = 220, dimensions = 2, radius = 15,
            encoders = Some (ChoiceDist [[1, 1], [- 1, 1], [1, - 1], [- 1, - 1]])\<rparr>,
          EnsembleObj \<lparr>n_neurons = 100, dimensions = 1, radius = 20, encoders = None\<rparr>,
          NodeObj \<lparr>node_output = Some (PiecewiseProcess inputA_data), size_in = None\<rparr>,
          NodeObj \<lparr>node_output = Some (PiecewiseProcess inputB_data), size_in = None\<rparr>,
          ConnectionObj \<lparr>pre = Obj 5, post = Obj 1, conn_function = None,
            conn_synapse = SynapseDefault\<rparr>,
          ConnectionObj \<lparr>pre = Obj 6, post = Obj 2, conn_function = None,
            conn_synapse = SynapseDefault\<rparr>,
          ConnectionObj \<lparr>pre = Obj 1, post = View 3 0, conn_function = None,
            conn_synapse = SynapseDefault\<rparr>,
          ConnectionObj \<lparr>pre = Obj 2, post = View 3 1, conn_function = None,
            conn_synapse = SynapseDefault\<rparr>,
          ConnectionObj \<lparr>pre = Obj 3, post = Obj 4, conn_function = Some product,
            conn_synapse = SynapseDefault\<rparr>,
          ProbeObj \<lparr>target = Obj 5, probe_synapse = SynapseDefault\<rparr>,
          ProbeObj \<lparr>target = Obj 6, probe_synapse = SynapseDefault\<rparr>,
          ProbeObj \<lparr>target = Obj 1, probe_synapse = SynapseTau 0.01\<rparr>,
          ProbeObj \<lparr>target = Obj 2, probe_synapse = SynapseTau 0.01\<rparr>,
          ProbeObj \<lparr>target = Obj 3, probe_synapse = SynapseTau 0.01\<rparr>,
          ProbeObj \<lparr>target = Obj 4, probe_synapse = SynapseTau 0.01\<rparr>,
          SimulatorObj \<lparr>sim_network = 0, sim_time = 5, sim_closed = True\<rparr>],
       net_context = [], history = h\<rparr> =
     (Inr (19, 22, 23,
        \<lparr>net = 24, net_A = 25, net_B = 26, net_combined = 27, net_prod = 28\<rparr>),
      \<lparr>store =
         [NetworkObj \<lparr>label = ''Multiplication'',
            members = [1, 2, 3, 4, 5, 6, 7, 8, 9, 10, 11, 12, 13, 14, 15, 16, 17]\<rparr>,
          EnsembleObj \<lparr>n_neurons = 100, dimensions = 1, radius = 10, encoders = None\<rparr>,
          EnsembleObj \<lparr>n_neurons = 100, dimensions = 1, radius = 10, encoders = None\<rparr>,
          EnsembleObj \<lparr>n_neurons = 220, dimensions = 2, radius = 15,
            encoders = Some (ChoiceDist [[1, 1], [- 1, 1], [1, - 1], [- 1, - 1]])\<rparr>,
          EnsembleObj \<lparr>n_neurons = 100, dimensions = 1, radius = 20, encoders = None\<rparr>,
          NodeObj \<lparr>node_output = Some (PiecewiseProcess inputA_data), size_in = None\<rparr>,
          NodeObj \<lparr>node_output = Some (PiecewiseProcess inputB_data), size_in = None\<rparr>,
          ConnectionObj \<lparr>pre = Obj 5, post = Obj 1, conn_function = None,
            conn_synapse = SynapseDefault\<rparr>,
          ConnectionObj \<lparr>pre = Obj 6, post = Obj 2, conn_function = None,
            conn_synapse = SynapseDefault\<rparr>,
          ConnectionObj \<lparr>pre = Obj 1, post = View 3 0, conn_function = None,
            conn_synapse = SynapseDefault\<rparr>,
          ConnectionObj \<lparr>pre = Obj 2, post = View 3 1, conn_function = None,
            conn_synapse = SynapseDefault\<rparr>,
          ConnectionObj \<lparr>pre = Obj 3, post = Obj 4, conn_function = Some product,
            conn_synapse = SynapseDefault\<rparr>,
          ProbeObj \<lparr>target = Obj 5, probe_synapse = SynapseDefault\<rparr>,
          ProbeObj \<lparr>target = Obj 6, probe_synapse = SynapseDefault\<rparr>,
          ProbeObj \<lparr>target = Obj 1, probe_synapse = SynapseTau 0.01\<rparr>,
          ProbeObj \<lparr>target = Obj 2, probe_synapse = SynapseTau 0.01\<rparr>,
          ProbeObj \<lparr>target = Obj 3, probe_synapse = SynapseTau 0.01\<rparr>,
          ProbeObj \<lparr>target = Obj 4, probe_synapse = SynapseTau 0.01\<rparr>,
          SimulatorObj \<lparr>sim_network = 0, sim_time = 5, sim_closed = True\<rparr>,
          NetworkObj \<lparr>label = ''Multiplication'',
            members = [20, 21, 22, 23, 24, 32, 33, 34, 35, 36, 37, 38, 39, 40, 41]\<rparr>,
          NodeObj \<lparr>node_output = Some (PiecewiseProcess inputA_data), size_in = None\<rparr>,
          NodeObj \<lparr>node_output = Some (PiecewiseProcess inputB_data), size_in = None\<rparr>,
          EnsembleObj \<lparr>n_neurons = 100, dimensions = 1, radius = 10, encoders = None\<rparr>,
          EnsembleObj \<lparr>n_neurons = 100, dimensions = 1, radius = 10, encoders = None\<rparr>,
          NetworkObj \<lparr>label = ''Product'', members = [25, 26, 27, 28, 29, 30, 31]\<rparr>,
          NodeObj \<lparr>node_output = None, size_in = Some 1\<rparr>,
          NodeObj \<lparr>node_output = None, size_in = Some 1\<rparr>,
          EnsembleObj \<lparr>n_neurons = 200, dimensions = 2, radius = sqrt 200,
            encoders = Some (ChoiceDist [[1, 1], [- 1, 1], [1, - 1], [- 1, - 1]])\<rparr>,
          EnsembleObj \<lparr>n_neurons = 100, dimensions = 1, radius = 20, encoders = None\<rparr>,
          ConnectionObj \<lparr>pre = Obj 25, post = View 27 0, conn_function = None,
            conn_synapse = SynapseNone\<rparr>,
          ConnectionObj \<lparr>pre = Obj 26, post = View 27 1, conn_function = None,
            conn_synapse = SynapseNone\<rparr>,
          ConnectionObj \<lparr>pre = Obj 27, post = Obj 28, conn_function = Some product_sub,
            conn_synapse = SynapseDefault\<rparr>,
          ConnectionObj \<lparr>pre = Obj 20, post = Obj 22, conn_function = None,
            conn_synapse = SynapseDefault\<rparr>,
          ConnectionObj \<lparr>pre = Obj 21, post = Obj 23, conn_function = None,
            conn_synapse = SynapseDefault\<rparr>,
          ConnectionObj \<lparr>pre = Obj 22, post = Obj 25, conn_function = None,
            conn_synapse = SynapseDefault\<rparr>,
          ConnectionObj \<lparr>pre = Obj 23, post = Obj 26, conn_function = None,
            conn_synapse = SynapseDefault\<rparr>,
          ProbeObj \<lparr>target = Obj 20, probe_synapse = SynapseDefault\<rparr>,
          ProbeObj \<lparr>target = Obj 21, probe_synapse = SynapseDefault\<rparr>,
          ProbeObj \<lparr>target = Obj 22, probe_synapse = SynapseTau 0.01\<rparr>,
          ProbeObj \<lparr>target = Obj 23, probe_synapse = SynapseTau 0.01\<rparr>,
          ProbeObj \<lparr>target = Obj 27, probe_synapse = SynapseTau 0.01\<rparr>,
          ProbeObj \<lparr>target = Obj 28, probe_synapse = SynapseTau 0.01\<rparr>,
          SimulatorObj \<lparr>sim_network = 19, sim_time = 5, sim_closed = True\<rparr>],
       net_context = [], history = h'\<rparr>)"
  by (simp add: cell_bonus_def cell_step6_def Product_def run_defs no_failure_def bnd_Inr bnd_Inl
      cong: bnd_weak_cong)

lemma notebook_no_failure:
  "\<exists>h. notebook (no_failure :: 'e library) kernel0 =
     (Inr ((0, 1, 2, 3, 4), 19, 22, 23,
        \<lparr>net = 24, net_A = 25, net_B = 26, net_combined = 27, net_prod = 28\<rparr>),
      \<lparr>store =
         [NetworkObj \<lparr>label = ''Multiplication'',
            members = [1, 2, 3, 4, 5, 6, 7, 8, 9, 10, 11, 12, 13, 14, 15, 16, 17]\<rparr>,
          EnsembleObj \<lparr>n_neurons = 100, dimensions = 1, radius = 10, encoders = None\<rparr>,
          EnsembleObj \<lparr>n_neurons = 100, dimensions = 1, radius = 10, encoders = None\<rparr>,
          EnsembleObj \<lparr>n_neurons = 220, dimensions = 2, radius = 15,
            encoders = Some (ChoiceDist [[1, 1], [- 1, 1], [1, - 1], [- 1, - 1]])\<rparr>,
          EnsembleObj \<lparr>n_neurons = 100, dimensions = 1, radius = 20, encoders = None\<rparr>,
          NodeObj \<lparr>node_output = Some (PiecewiseProcess inputA_data), size_in = None\<rparr>,
          NodeObj \<lparr>node_output = Some (PiecewiseProcess inputB_data), size_in = None\<rparr>,
          ConnectionObj \<lparr>pre = Obj 5, post = Obj 1, conn_function = None,
            conn_synapse = SynapseDefault\<rparr>,
          ConnectionObj \<lparr>pre = Obj 6, post = Obj 2, conn_function = None,
            conn_synapse = SynapseDefault\<rparr>,
          ConnectionObj \<lparr>pre = Obj 1, post = View 3 0, conn_function = None,
            conn_synapse = SynapseDefault\<rparr>,
          ConnectionObj \<lparr>pre = Obj 2, post = View 3 1, conn_function = None,
            conn_synapse = SynapseDefault\<rparr>,
          ConnectionObj \<lparr>pre = Obj 3, post = Obj 4, conn_function = Some product,
            conn_synapse = SynapseDefault\<rparr>,
          ProbeObj \<lparr>target = Obj 5, probe_synapse = SynapseDefault\<rparr>,
          ProbeObj \<lparr>target = Obj 6, probe_synapse = SynapseDefault\<rparr>,
          ProbeObj \<lparr>target = Obj 1, probe_synapse = SynapseTau 0.01\<rparr>,
          ProbeObj \<lparr>target = Obj 2, probe_synapse = SynapseTau 0.01\<rparr>,
          ProbeObj \<lparr>target = Obj 3, probe_synapse = SynapseTau 0.01\<rparr>,
          ProbeObj \<lparr>target = Obj 4, probe_synapse = SynapseTau 0.01\<rparr>,
          SimulatorObj \<lparr>sim_network = 0, sim_time = 5, sim_closed = True\<rparr>,
          NetworkObj \<lparr>label = ''Multiplication'',
            members = [20, 21, 22, 23, 24, 32, 33, 34, 35, 36, 37, 38, 39, 40, 41]\<rparr>,
          NodeObj \<lparr>node_output = Some (PiecewiseProcess inputA_data), size_in = None\<rparr>,
          NodeObj \<lparr>node_output = Some (PiecewiseProcess inputB_data), size_in = None\<rparr>,
          EnsembleObj \<lparr>n_neurons = 100, dimensions = 1, radius = 10, encoders = None\<rparr>,
          EnsembleObj \<lparr>n_neurons = 100, dimensions = 1, radius = 10, encoders = None\<rparr>,
          NetworkObj \<lparr>label = ''Product'', members = [25, 26, 27, 28, 29, 30, 31]\<rparr>,
          NodeObj \<lparr>node_output = None, size_in = Some 1\<rparr>,
          NodeObj \<lparr>node_output = None, size_in = Some 1\<rparr>,
          EnsembleObj \<lparr>n_neurons = 200, dimensions = 2, radius = sqrt 200,
            encoders = Some (ChoiceDist [[1, 1], [- 1, 1], [1, - 1], [- 1, - 1]])\<rparr>,
          EnsembleObj \<lparr>n_neurons = 100, dimensions = 1, radius = 20, encoders = None\<rparr>,
          ConnectionObj \<lparr>pre = Obj 25, post = View 27 0, conn_function = None,
            conn_synapse = SynapseNone\<rparr>,
          ConnectionObj \<lparr>pre = Obj 26, post = View 27 1, conn_function = None,
            conn_synapse = SynapseNone\<rparr>,
          ConnectionObj \<lparr>pre = Obj 27, post = Obj 28, conn_function = Some product_sub,
            conn_synapse = SynapseDefault\<rparr>,
          ConnectionObj \<lparr>pre = Obj 20, post = Obj 22, conn_function = None,
            conn_synapse = SynapseDefault\<rparr>,
          ConnectionObj \<lparr>pre = Obj 21, post = Obj 23, conn_function = None,
            conn_synapse = SynapseDefault\<rparr>,
          ConnectionObj \<lparr>pre = Obj 22, post = Obj 25, conn_function = None,
            conn_synapse = SynapseDefault\<rparr>,
          ConnectionObj \<lparr>pre = Obj 23, post = Obj 26, conn_function = None,
            conn_synapse = SynapseDefault\<rparr>,
          ProbeObj \<lparr>target = Obj 20, probe_synapse = SynapseDefault\<rparr>,
          ProbeObj \<lparr>target = Obj 21, probe_synapse = SynapseDefault\<rparr>,
          ProbeObj \<lparr>target = Obj 22, probe_synapse = SynapseTau 0.01\<rparr>,
          ProbeObj \<lparr>target = Obj 23, probe_synapse = SynapseTau 0.01\<rparr>,
          ProbeObj \<lparr>target = Obj 27, probe_synapse = SynapseTau 0.01\<rparr>,
          ProbeObj \<lparr>target = Obj 28, probe_synapse = SynapseTau 0.01\<rparr>,
          SimulatorObj \<lparr>sim_network = 19, sim_time = 5, sim_closed = True\<rparr>],
       net_context = [], history = h\<rparr>)"
  (is "\<exists>h. _ = (?r, \<lparr>store = ?S2, net_context = [], history = h\<rparr>)")
proof -
  let ?L = "no_failure :: 'e library"
  let ?ca = "PiecewiseProcess correct_ans_data"
  let ?S1 = "[NetworkObj \<lparr>label = ''Multiplication'',
            members = [1, 2, 3, 4, 5, 6, 7, 8, 9, 10, 11, 12, 13, 14, 15, 16, 17]\<rparr>,
          EnsembleObj \<lparr>n_neurons = 100, dimensions = 1, radius = 10, encoders = None\<rparr>,
          EnsembleObj \<lparr>n_neurons = 100, dimensions = 1, radius = 10, encoders = None\<rparr>,
          EnsembleObj \<lparr>n_neurons = 220, dimensions = 2, radius = 15,
            encoders = Some (ChoiceDist [[1, 1], [- 1, 1], [1, - 1], [- 1, - 1]])\<rparr>,
          EnsembleObj \<lparr>n_neurons = 100, dimensions = 1, radius = 20, encoders = None\<rparr>,
          NodeObj \<lparr>node_output = Some (PiecewiseProcess inputA_data), size_in = None\<rparr>,
          NodeObj \<lparr>node_output = Some (PiecewiseProcess inputB_data), size_in = None\<rparr>,
          ConnectionObj \<lparr>pre = Obj 5, post = Obj 1, conn_function = None,
            conn_synapse = SynapseDefault\<rparr>,
          ConnectionObj \<lparr>pre = Obj 6, post = Obj 2, conn_function = None,
            conn_synapse = SynapseDefault\<rparr>,
          ConnectionObj \<lparr>pre = Obj 1, post = View 3 0, conn_function = None,
            conn_synapse = SynapseDefault\<rparr>,
          ConnectionObj \<lparr>pre = Obj 2, post = View 3 1, conn_function = None,
            conn_synapse = SynapseDefault\<rparr>,
          ConnectionObj \<lparr>pre = Obj 3, post = Obj 4, conn_function = Some product,
            conn_synapse = SynapseDefault\<rparr>,
          ProbeObj \<lparr>target = Obj 5, probe_synapse = SynapseDefault\<rparr>,
          ProbeObj \<lparr>target = Obj 6, probe_synapse = SynapseDefault\<rparr>,
          ProbeObj \<lparr>target = Obj 1, probe_synapse = SynapseTau 0.01\<rparr>,
          ProbeObj \<lparr>target = Obj 2, probe_synapse = SynapseTau 0.01\<rparr>,
          ProbeObj \<lparr>target = Obj 3, probe_synapse = SynapseTau 0.01\<rparr>,
          ProbeObj \<lparr>target = Obj 4, probe_synapse = SynapseTau 0.01\<rparr>,
          SimulatorObj \<lparr>sim_network = 0, sim_time = 5, sim_closed = True\<rparr>]"
  from flat_model_no_failure [where ?'a = 'e] obtain h1 where
    flat: "flat_model ?L kernel0 =
      (Inr ((0, 1, 2, 3, 4), (5, 6, ?ca)), \<lparr>store = ?S1, net_context = [], history = h1\<rparr>)"
    by blast
  from cell_bonus_no_failure [of h1, where ?'a = 'e] obtain h2 where
    bonus: "cell_bonus ?L ?ca \<lparr>store = ?S1, net_context = [], history = h1\<rparr> =
      (Inr (19, 22, 23,
         \<lparr>net = 24, net_A = 25, net_B = 26, net_combined = 27, net_prod = 28\<rparr>),
       \<lparr>store = ?S2, net_context = [], history = h2\<rparr>)"
    by blast
  have "notebook ?L kernel0 =
      bnd (cell_bonus ?L ?ca) (\<lambda>bonus. ret ((0, 1, 2, 3, 4), bonus))
        \<lparr>store = ?S1, net_context = [], history = h1\<rparr>"
    unfolding notebook_def by (subst bnd_Inr, rule flat) simp
  also have "\<dots> = ret ((0, 1, 2, 3, 4), (19, 22, 23,
         \<lparr>net = 24, net_A = 25, net_B = 26, net_combined = 27, net_prod = 28\<rparr>))
       \<lparr>store = ?S2, net_context = [], history = h2\<rparr>"
    by (rule bnd_Inr) (rule bonus)
  finally show ?thesis
    by (intro exI [of _ h2]) (simp add: ret_def)
qed

subsection \<open>No error is caught\<close>

lemma accepted_Nil: "accepted L []"
  by (simp add: accepted_def)

lemma accepted_snoc: "accepted L (h @ [c]) \<longleftrightarrow> accepted L h \<and> L h c = None"
proof
  assume a: "accepted L (h @ [c])"
  have "accepted L h"
    unfolding accepted_def
  proof (intro allI impI)
    fix i assume i: "i < length h"
    then have "L (take i (h @ [c])) ((h @ [c]) ! i) = None"
      using a [unfolded accepted_def, rule_format, of i] by simp
    with i show "L (take i h) (h ! i) = None" by (simp add: nth_append)
  qed
  moreover have "L h c = None"
    using a [unfolded accepted_def, rule_format, of "length h"] by simp
  ultimately show "accepted L h \<and> L h c = None" by simp
next
  assume a: "accepted L h \<and> L h c = None"
  show "accepted L (h @ [c])"
    unfolding accepted_def
  proof (intro allI impI)
    fix i assume "i < length (h @ [c])"
    then consider "i < length h" | "i = length h" by fastforce
    then show "L (take i (h @ [c])) ((h @ [c]) ! i) = None"
    proof cases
      case 1
      with a show ?thesis by (simp add: accepted_def nth_append)
    next
      case 2
      with a show ?thesis by simp
    qed
  qed
qed

lemma propagates_ret: "propagates L (ret x)"
  by (simp add: propagates_def ret_def)

lemma propagates_lib_call: "propagates L (lib_call L c effect)"
  by (auto simp: propagates_def lib_call_def raised_by_last_call_def accepted_snoc
      split: option.split prod.split)

lemma propagates_bnd:
  assumes "propagates L m" and "\<And>x. propagates L (f x)"
  shows "propagates L (bnd m f)"
  unfolding propagates_def
proof (intro allI impI)
  fix k :: kernel assume k: "accepted L (history k)"
  obtain r k' where mk: "m k = (r, k')" by (cases "m k")
  show "case bnd m f k of
          (Inr x, k') \<Rightarrow> accepted L (history k')
        | (Inl e, k') \<Rightarrow> raised_by_last_call L (history k') e"
  proof (cases r)
    case (Inl e)
    with assms(1) k mk show ?thesis by (auto simp: propagates_def bnd_def)
  next
    case (Inr x)
    with assms(1) k mk have "accepted L (history k')" by (auto simp: propagates_def)
    with assms(2) [of x] have
      "case f x k' of
         (Inr y, k'') \<Rightarrow> accepted L (history k'')
       | (Inl e, k'') \<Rightarrow> raised_by_last_call L (history k'') e"
      by (simp add: propagates_def)
    with Inr mk show ?thesis by (simp add: bnd_def)
  qed
qed

lemma propagates_with_network:
  assumes "propagates L body"
  shows "propagates L (with_network n body)"
  unfolding propagates_def
proof (intro allI impI)
  fix k :: kernel assume k: "accepted L (history k)"
  let ?k = "k\<lparr>net_context := n # net_context k\<rparr>"
  obtain r k' where b: "body ?k = (r, k')" by (cases "body ?k")
  from assms k have
    "case body ?k of
       (Inr y, k'') \<Rightarrow> accepted L (history k'')
     | (Inl e, k'') \<Rightarrow> raised_by_last_call L (history k'') e"
    by (simp add: propagates_def)
  with b show "case with_network n body k of
          (Inr x, k') \<Rightarrow> accepted L (history k')
        | (Inl e, k') \<Rightarrow> raised_by_last_call L (history k') e"
    by (cases r) (simp_all add: with_network_def)
qed

lemma propagates_with_simulator:
  assumes "propagates L body"
  shows "propagates L (with_simulator s body)"
  unfolding propagates_def
proof (intro allI impI)
  fix k :: kernel assume k: "accepted L (history k)"
  obtain r k' where b: "body k = (r, k')" by (cases "body k")
  from assms k have
    "case body k of
       (Inr y, k'') \<Rightarrow> accepted L (history k'')
     | (Inl e, k'') \<Rightarrow> raised_by_last_call L (history k'') e"
    by (simp add: propagates_def)
  with b show "case with_simulator s body k of
          (Inr x, k') \<Rightarrow> accepted L (history k')
        | (Inl e, k') \<Rightarrow> raised_by_last_call L (history k') e"
    by (cases r) (simp_all add: with_simulator_def update_object_def)
qed

lemma propagates_case_prod:
  assumes "\<And>a b. propagates L (f a b)"
  shows "propagates L (case_prod f p)"
  using assms by (cases p) simp

lemmas propagates_intros = propagates_ret propagates_lib_call propagates_bnd
  propagates_with_network propagates_with_simulator propagates_case_prod

lemma propagates_cell_step6:
  "propagates L (cell_step6 L sim A_probe B_probe prod_probe correct_ans)"
  unfolding cell_step6_def library_defs by (intro propagates_intros)

lemma propagates_Product: "propagates L (Product L 100 10)"
  unfolding Product_def library_defs by (intro propagates_intros)

lemma propagates_cell_bonus: "propagates L (cell_bonus L correct_ans)"
  unfolding cell_bonus_def
  by (intro propagates_intros propagates_Product propagates_cell_step6)
    (unfold library_defs, (intro propagates_intros)+)

lemma propagates_flat_model: "propagates L (flat_model L)"
  unfolding flat_model_def
  by (intro propagates_intros propagates_cell_step6)
    (unfold cell_defs library_defs, (intro propagates_intros)+)

text \<open>
  Claim C7. The notebook catches, transforms and recovers from nothing. Whatever the
  library does: each code cell (for any values of the names it reads), the call
  \<^verbatim>\<open>Product(100, input_magnitude=10)\<close> that the notebook makes, and the notebook as a
  whole, started in a session where no call has failed, either complete with every
  library call accepted, or end with exactly the error the library raised, at the call
  that raised it, with no further call made.
\<close>

theorem notebook_lets_library_errors_through:
  "propagates L (cell_imports L)
   \<and> propagates L (cell_step1 L)
   \<and> propagates L (cell_step2 L model)
   \<and> propagates L (cell_step3 L model inputA inputB A B combined prod_ens)
   \<and> propagates L (cell_step4 L model inputA inputB A B combined prod_ens)
   \<and> propagates L (cell_step5 L model)
   \<and> propagates L (cell_step6 L sim A_probe B_probe prod_probe correct_ans)
   \<and> propagates L (Product L 100 10)
   \<and> propagates L (cell_bonus L correct_ans)
   \<and> propagates L (notebook L)"
proof -
  have "propagates L (cell_imports L)"
    unfolding cell_imports_def library_defs by (intro propagates_intros)
  moreover have "propagates L (cell_step1 L)"
    unfolding cell_step1_def library_defs by (intro propagates_intros)
  moreover have "propagates L (cell_step2 L model)"
    unfolding cell_step2_def library_defs by (intro propagates_intros)
  moreover have "propagates L (cell_step3 L model inputA inputB A B combined prod_ens)"
    unfolding cell_step3_def library_defs by (intro propagates_intros)
  moreover have "propagates L (cell_step4 L model inputA inputB A B combined prod_ens)"
    unfolding cell_step4_def library_defs by (intro propagates_intros)
  moreover have "propagates L (cell_step5 L model)"
    unfolding cell_step5_def library_defs by (intro propagates_intros)
  moreover have "propagates L (notebook L)"
    unfolding notebook_def
    by (intro propagates_intros propagates_flat_model propagates_cell_bonus)
  ultimately show ?thesis
    using propagates_cell_step6 propagates_Product propagates_cell_bonus by blast
qed

text \<open>
  The theorem for a library that rejects an ensemble of 220 neurons and accepts every
  other call: the notebook ends with that error in Step 1, the rejected call is the
  last one made, and the calls before it were accepted.
\<close>

theorem notebook_lets_library_errors_through_witness:
  "accepted (\<lambda>h c. if c = Ensemble_call 220 2 15 None then Some ''ValidationError'' else None)
     (history kernel0)
   \<and> fst (notebook
        (\<lambda>h c. if c = Ensemble_call 220 2 15 None then Some ''ValidationError'' else None)
        kernel0) = Inl ''ValidationError''
   \<and> history (snd (notebook
        (\<lambda>h c. if c = Ensemble_call 220 2 15 None then Some ''ValidationError'' else None)
        kernel0)) =
       [Magic_call ''matplotlib inline'', Import_call ''matplotlib.pyplot'',
        Import_call ''numpy'', Import_call ''nengo'', Import_call ''nengo.dists'',
        Import_call ''nengo.processes'', Network_call ''Multiplication'',
        Ensemble_call 100 1 10 None, Ensemble_call 100 1 10 None, Ensemble_call 220 2 15 None]
   \<and> raised_by_last_call
        (\<lambda>h c. if c = Ensemble_call 220 2 15 None then Some ''ValidationError'' else None)
        (history (snd (notebook
          (\<lambda>h c. if c = Ensemble_call 220 2 15 None then Some ''ValidationError'' else None)
          kernel0)))
        ''ValidationError''"
  (is "accepted ?L _ \<and> _ \<and> _ \<and> _")
proof -
  have start: "accepted ?L (history kernel0)"
    by (simp add: kernel0_def accepted_Nil)
  have run: "notebook ?L kernel0 =
      (Inl ''ValidationError'',
       \<lparr>store =
          [NetworkObj \<lparr>label = ''Multiplication'', members = [1, 2]\<rparr>,
           EnsembleObj \<lparr>n_neurons = 100, dimensions = 1, radius = 10, encoders = None\<rparr>,
           EnsembleObj \<lparr>n_neurons = 100, dimensions = 1, radius = 10, encoders = None\<rparr>],
        net_context = [],
        history =
          [Magic_call ''matplotlib inline'', Import_call ''matplotlib.pyplot'',
           Import_call ''numpy'', Import_call ''nengo'', Import_call ''nengo.dists'',
           Import_call ''nengo.processes'', Network_call ''Multiplication'',
           Ensemble_call 100 1 10 None, Ensemble_call 100 1 10 None,
           Ensemble_call 220 2 15 None]\<rparr>)"
    by (simp add: notebook_def flat_model_def cell_defs run_defs kernel0_def bnd_Inr bnd_Inl
        cong: bnd_weak_cong)
  from notebook_lets_library_errors_through [of ?L] have "propagates ?L (notebook ?L)"
    by blast
  from this [unfolded propagates_def, rule_format, OF start]
  have "case notebook ?L kernel0 of
      (Inr x, k') \<Rightarrow> accepted ?L (history k')
    | (Inl e, k') \<Rightarrow> raised_by_last_call ?L (history k') e" .
  then have last: "raised_by_last_call ?L (history (snd (notebook ?L kernel0))) ''ValidationError''"
    unfolding run by simp
  have res: "fst (notebook ?L kernel0) = Inl ''ValidationError''"
    unfolding run by simp
  have hist: "history (snd (notebook ?L kernel0)) =
       [Magic_call ''matplotlib inline'', Import_call ''matplotlib.pyplot'',
        Import_call ''numpy'', Import_call ''nengo'', Import_call ''nengo.dists'',
        Import_call ''nengo.processes'', Network_call ''Multiplication'',
        Ensemble_call 100 1 10 None, Ensemble_call 100 1 10 None, Ensemble_call 220 2 15 None]"
    unfolding run by simp
  from start res hist last show ?thesis by (intro conjI)
qed

subsection \<open>The declarations of the flat model\<close>

lemma flat_model_completes:
  assumes "flat_model L kernel0 = (Inr r, k)"
  shows "r = ((0, 1, 2, 3, 4), (5, 6, PiecewiseProcess correct_ans_data))
    \<and> store k =
      [NetworkObj \<lparr>label = ''Multiplication'',
            members = [1, 2, 3, 4, 5, 6, 7, 8, 9, 10, 11, 12, 13, 14, 15, 16, 17]\<rparr>,
          EnsembleObj \<lparr>n_neurons = 100, dimensions = 1, radius = 10, encoders = None\<rparr>,
          EnsembleObj \<lparr>n_neurons = 100, dimensions = 1, radius = 10, encoders = None\<rparr>,
          EnsembleObj \<lparr>n_neurons = 220, dimensions = 2, radius = 15,
            encoders = Some (ChoiceDist [[1, 1], [- 1, 1], [1, - 1], [- 1, - 1]])\<rparr>,
          EnsembleObj \<lparr>n_neurons = 100, dimensions = 1, radius = 20, encoders = None\<rparr>,
          NodeObj \<lparr>node_output = Some (PiecewiseProcess inputA_data), size_in = None\<rparr>,
          NodeObj \<lparr>node_output = Some (PiecewiseProcess inputB_data), size_in = None\<rparr>,
          ConnectionObj \<lparr>pre = Obj 5, post = Obj 1, conn_function = None,
            conn_synapse = SynapseDefault\<rparr>,
          ConnectionObj \<lparr>pre = Obj 6, post = Obj 2, conn_function = None,
            conn_synapse = SynapseDefault\<rparr>,
          ConnectionObj \<lparr>pre = Obj 1, post = View 3 0, conn_function = None,
            conn_synapse = SynapseDefault\<rparr>,
          ConnectionObj \<lparr>pre = Obj 2, post = View 3 1, conn_function = None,
            conn_synapse = SynapseDefault\<rparr>,
          ConnectionObj \<lparr>pre = Obj 3, post = Obj 4, conn_function = Some product,
            conn_synapse = SynapseDefault\<rparr>,
          ProbeObj \<lparr>target = Obj 5, probe_synapse = SynapseDefault\<rparr>,
          ProbeObj \<lparr>target = Obj 6, probe_synapse = SynapseDefault\<rparr>,
          ProbeObj \<lparr>target = Obj 1, probe_synapse = SynapseTau 0.01\<rparr>,
          ProbeObj \<lparr>target = Obj 2, probe_synapse = SynapseTau 0.01\<rparr>,
          ProbeObj \<lparr>target = Obj 3, probe_synapse = SynapseTau 0.01\<rparr>,
          ProbeObj \<lparr>target = Obj 4, probe_synapse = SynapseTau 0.01\<rparr>,
          SimulatorObj \<lparr>sim_network = 0, sim_time = 5, sim_closed = True\<rparr>]"
proof -
  from completes_alike_flat_model assms
  have "flat_model (no_failure :: unit library) kernel0 = (Inr r, k)"
    by (rule completes_alikeD)
  with flat_model_no_failure [where ?'a = unit] show ?thesis by auto
qed

text \<open>
  Claim C2. When the cells up to Step 6 have run, the network \<^verbatim>\<open>model\<close> holds exactly
  four ensembles, the ones bound to \<^verbatim>\<open>A\<close>, \<^verbatim>\<open>B\<close>, \<^verbatim>\<open>combined\<close> and \<^verbatim>\<open>prod\<close>, four different
  objects: \<^verbatim>\<open>A\<close> and \<^verbatim>\<open>B\<close> with 100 neurons, 1 dimension and radius 10, \<^verbatim>\<open>combined\<close> with
  220 neurons, 2 dimensions and radius 15, \<^verbatim>\<open>prod\<close> with 100 neurons, 1 dimension and
  radius 20. This holds for every library under which the cells complete.
\<close>

theorem flat_model_declares_four_ensembles:
  assumes "flat_model L kernel0 = (Inr ((model, A, B, combined, prod_ens), inputs), k)"
  shows "map (\<lambda>(r, e). (r, n_neurons e, dimensions e, radius e)) (net_ensembles k model) =
           [(A, 100, 1, 10), (B, 100, 1, 10), (combined, 220, 2, 15), (prod_ens, 100, 1, 20)]
         \<and> distinct [A, B, combined, prod_ens]"
  using flat_model_completes [OF assms] by (simp add: observe_defs)

text \<open>The theorem for a library that accepts every call.\<close>

theorem flat_model_declares_four_ensembles_witness:
  "fst (flat_model (no_failure :: unit library) kernel0) =
     Inr ((0, 1, 2, 3, 4), (5, 6, PiecewiseProcess correct_ans_data))
   \<and> map (\<lambda>(r, e). (r, n_neurons e, dimensions e, radius e))
       (net_ensembles (snd (flat_model (no_failure :: unit library) kernel0)) 0) =
     [(1, 100, 1, 10), (2, 100, 1, 10), (3, 220, 2, 15), (4, 100, 1, 20)]"
proof -
  from flat_model_no_failure [where ?'a = unit] obtain k where
    run: "flat_model (no_failure :: unit library) kernel0 =
      (Inr ((0, 1, 2, 3, 4), (5, 6, PiecewiseProcess correct_ans_data)), k)"
    by blast
  from flat_model_declares_four_ensembles [OF run] run show ?thesis by simp
qed

text \<open>
  Claim C3. When the cells up to Step 6 have run, the network \<^verbatim>\<open>model\<close> holds the five
  connections of Step 3, in this order: \<^verbatim>\<open>inputA\<close> to \<^verbatim>\<open>A\<close>, \<^verbatim>\<open>inputB\<close> to \<^verbatim>\<open>B\<close>, \<^verbatim>\<open>A\<close> to
  \<^verbatim>\<open>combined[0]\<close>, \<^verbatim>\<open>B\<close> to \<^verbatim>\<open>combined[1]\<close>, \<^verbatim>\<open>combined\<close> to \<^verbatim>\<open>prod\<close>. Exactly one of them
  carries a function, the last, and the function is \<^verbatim>\<open>product\<close>, which maps a vector of
  two components to their product.
\<close>

theorem step3_one_connection_with_function:
  assumes "flat_model L kernel0 =
    (Inr ((model, A, B, combined, prod_ens), (inputA, inputB, correct_ans)), k)"
  shows "map (\<lambda>c. (pre c, post c)) (net_connections k model) =
           [(Obj inputA, Obj A), (Obj inputB, Obj B), (Obj A, View combined 0),
            (Obj B, View combined 1), (Obj combined, Obj prod_ens)]
         \<and> map conn_function (net_connections k model) = [None, None, None, None, Some product]
         \<and> length [c \<leftarrow> net_connections k model. conn_function c \<noteq> None] = 1
         \<and> product [x0, x1] = Inr (x0 * x1)"
  using flat_model_completes [OF assms] by (simp add: observe_defs product_pair)

text \<open>The theorem for a library that accepts every call, at the vector \<open>[3, 4]\<close>.\<close>

theorem step3_one_connection_with_function_witness:
  "fst (flat_model (no_failure :: unit library) kernel0) =
     Inr ((0, 1, 2, 3, 4), (5, 6, PiecewiseProcess correct_ans_data))
   \<and> map (\<lambda>c. (pre c, post c))
       (net_connections (snd (flat_model (no_failure :: unit library) kernel0)) 0) =
     [(Obj 5, Obj 1), (Obj 6, Obj 2), (Obj 1, View 3 0), (Obj 2, View 3 1), (Obj 3, Obj 4)]
   \<and> map conn_function
       (net_connections (snd (flat_model (no_failure :: unit library) kernel0)) 0) =
     [None, None, None, None, Some product]
   \<and> product [3, 4] = Inr 12"
proof -
  from flat_model_no_failure [where ?'a = unit] obtain k where
    run: "flat_model (no_failure :: unit library) kernel0 =
      (Inr ((0, 1, 2, 3, 4), (5, 6, PiecewiseProcess correct_ans_data)), k)"
    by blast
  from step3_one_connection_with_function [OF run, of 3 4] run show ?thesis by simp
qed


subsection \<open>The subnetwork\<close>

lemma notebook_completes:
  assumes "notebook L kernel0 = (Inr r, k)"
  shows "r = ((0, 1, 2, 3, 4), 19, 22, 23,
            \<lparr>net = 24, net_A = 25, net_B = 26, net_combined = 27, net_prod = 28\<rparr>)
    \<and> store k =
      [NetworkObj \<lparr>label = ''Multiplication'',
            members = [1, 2, 3, 4, 5, 6, 7, 8, 9, 10, 11, 12, 13, 14, 15, 16, 17]\<rparr>,
          EnsembleObj \<lparr>n_neurons = 100, dimensions = 1, radius = 10, encoders = None\<rparr>,
          EnsembleObj \<lparr>n_neurons = 100, dimensions = 1, radius = 10, encoders = None\<rparr>,
          EnsembleObj \<lparr>n_neurons = 220, dimensions = 2, radius = 15,
            encoders = Some (ChoiceDist [[1, 1], [- 1, 1], [1, - 1], [- 1, - 1]])\<rparr>,
          EnsembleObj \<lparr>n_neurons = 100, dimensions = 1, radius = 20, encoders = None\<rparr>,
          NodeObj \<lparr>node_output = Some (PiecewiseProcess inputA_data), size_in = None\<rparr>,
          NodeObj \<lparr>node_output = Some (PiecewiseProcess inputB_data), size_in = None\<rparr>,
          ConnectionObj \<lparr>pre = Obj 5, post = Obj 1, conn_function = None,
            conn_synapse = SynapseDefault\<rparr>,
          ConnectionObj \<lparr>pre = Obj 6, post = Obj 2, conn_function = None,
            conn_synapse = SynapseDefault\<rparr>,
          ConnectionObj \<lparr>pre = Obj 1, post = View 3 0, conn_function = None,
            conn_synapse = SynapseDefault\<rparr>,
          ConnectionObj \<lparr>pre = Obj 2, post = View 3 1, conn_function = None,
            conn_synapse = SynapseDefault\<rparr>,
          ConnectionObj \<lparr>pre = Obj 3, post = Obj 4, conn_function = Some product,
            conn_synapse = SynapseDefault\<rparr>,
          ProbeObj \<lparr>target = Obj 5, probe_synapse = SynapseDefault\<rparr>,
          ProbeObj \<lparr>target = Obj 6, probe_synapse = SynapseDefault\<rparr>,
          ProbeObj \<lparr>target = Obj 1, probe_synapse = SynapseTau 0.01\<rparr>,
          ProbeObj \<lparr>target = Obj 2, probe_synapse = SynapseTau 0.01\<rparr>,
          ProbeObj \<lparr>target = Obj 3, probe_synapse = SynapseTau 0.01\<rparr>,
          ProbeObj \<lparr>target = Obj 4, probe_synapse = SynapseTau 0.01\<rparr>,
          SimulatorObj \<lparr>sim_network = 0, sim_time = 5, sim_closed = True\<rparr>,
          NetworkObj \<lparr>label = ''Multiplication'',
            members = [20, 21, 22, 23, 24, 32, 33, 34, 35, 36, 37, 38, 39, 40, 41]\<rparr>,
          NodeObj \<lparr>node_output = Some (PiecewiseProcess inputA_data), size_in = None\<rparr>,
          NodeObj \<lparr>node_output = Some (PiecewiseProcess inputB_data), size_in = None\<rparr>,
          EnsembleObj \<lparr>n_neurons = 100, dimensions = 1, radius = 10, encoders = None\<rparr>,
          EnsembleObj \<lparr>n_neurons = 100, dimensions = 1, radius = 10, encoders = None\<rparr>,
          NetworkObj \<lparr>label = ''Product'', members = [25, 26, 27, 28, 29, 30, 31]\<rparr>,
          NodeObj \<lparr>node_output = None, size_in = Some 1\<rparr>,
          NodeObj \<lparr>node_output = None, size_in = Some 1\<rparr>,
          EnsembleObj \<lparr>n_neurons = 200, dimensions = 2, radius = sqrt 200,
            encoders = Some (ChoiceDist [[1, 1], [- 1, 1], [1, - 1], [- 1, - 1]])\<rparr>,
          EnsembleObj \<lparr>n_neurons = 100, dimensions = 1, radius = 20, encoders = None\<rparr>,
          ConnectionObj \<lparr>pre = Obj 25, post = View 27 0, conn_function = None,
            conn_synapse = SynapseNone\<rparr>,
          ConnectionObj \<lparr>pre = Obj 26, post = View 27 1, conn_function = None,
            conn_synapse = SynapseNone\<rparr>,
          ConnectionObj \<lparr>pre = Obj 27, post = Obj 28, conn_function = Some product_sub,
            conn_synapse = SynapseDefault\<rparr>,
          ConnectionObj \<lparr>pre = Obj 20, post = Obj 22, conn_function = None,
            conn_synapse = SynapseDefault\<rparr>,
          ConnectionObj \<lparr>pre = Obj 21, post = Obj 23, conn_function = None,
            conn_synapse = SynapseDefault\<rparr>,
          ConnectionObj \<lparr>pre = Obj 22, post = Obj 25, conn_function = None,
            conn_synapse = SynapseDefault\<rparr>,
          ConnectionObj \<lparr>pre = Obj 23, post = Obj 26, conn_function = None,
            conn_synapse = SynapseDefault\<rparr>,
          ProbeObj \<lparr>target = Obj 20, probe_synapse = SynapseDefault\<rparr>,
          ProbeObj \<lparr>target = Obj 21, probe_synapse = SynapseDefault\<rparr>,
          ProbeObj \<lparr>target = Obj 22, probe_synapse = SynapseTau 0.01\<rparr>,
          ProbeObj \<lparr>target = Obj 23, probe_synapse = SynapseTau 0.01\<rparr>,
          ProbeObj \<lparr>target = Obj 27, probe_synapse = SynapseTau 0.01\<rparr>,
          ProbeObj \<lparr>target = Obj 28, probe_synapse = SynapseTau 0.01\<rparr>,
          SimulatorObj \<lparr>sim_network = 19, sim_time = 5, sim_closed = True\<rparr>]"
proof -
  from completes_alike_notebook assms
  have "notebook (no_failure :: unit library) kernel0 = (Inr r, k)"
    by (rule completes_alikeD)
  with notebook_no_failure [where ?'e = unit] show ?thesis by auto
qed

lemma sqrt_200: "sqrt 200 = 10 * sqrt 2"
proof -
  have "sqrt 200 = sqrt (100 * 2)" by simp
  also have "\<dots> = sqrt 100 * sqrt 2" by (rule real_sqrt_mult)
  also have "sqrt 100 = 10" using real_sqrt_abs [of 10] by simp
  finally show ?thesis .
qed

lemma ten_sqrt_2_not_15: "10 * sqrt 2 \<noteq> 15"
proof
  assume "10 * sqrt 2 = 15"
  then have e: "sqrt 2 = 3 / 2" by simp
  have "(sqrt 2)\<^sup>2 = 2" by simp
  then have "(3 / 2 :: real)\<^sup>2 = 2" unfolding e .
  then show False by (simp add: power2_eq_square)
qed

text \<open>
  Claim C8. Whatever the session, when \<^verbatim>\<open>Product(n, m)\<close> completes, the ensembles of the
  network it returns are its \<^verbatim>\<open>combined\<close>, with \<open>2 * n\<close> neurons, 2 dimensions and radius
  \<open>sqrt (m\<^sup>2 + m\<^sup>2)\<close>, and its \<^verbatim>\<open>prod\<close>, with \<open>n\<close> neurons, 1 dimension and radius \<open>2 * m\<close>.
  When the whole notebook has run, the \<^verbatim>\<open>combined\<close> of the subnetwork built by
  \<^verbatim>\<open>Product(100, input_magnitude=10)\<close> has 200 neurons and radius \<open>10 * sqrt 2\<close>, the
  \<^verbatim>\<open>combined\<close> of the flat model has 220 neurons and radius 15, and the two differ in
  both.
\<close>

theorem Product_ensembles_differ_from_flat_model:
  "(Product L n m k = (Inr p, k') \<longrightarrow>
      net_ensembles k' (net p) =
        [(net_combined p,
          \<lparr>n_neurons = 2 * n, dimensions = 2, radius = sqrt (m\<^sup>2 + m\<^sup>2),
           encoders = Some (ChoiceDist [[1, 1], [- 1, 1], [1, - 1], [- 1, - 1]])\<rparr>),
         (net_prod p,
          \<lparr>n_neurons = n, dimensions = 1, radius = 2 * m, encoders = None\<rparr>)])
   \<and> (notebook L kernel0 =
        (Inr ((model, A, B, combined, prod_ens), (model', A', B', prod_net)), kf) \<longrightarrow>
      (\<exists>e_flat e_sub.
          lookup kf combined = Some (EnsembleObj e_flat)
        \<and> lookup kf (net_combined prod_net) = Some (EnsembleObj e_sub)
        \<and> n_neurons e_sub = 200 \<and> radius e_sub = 10 * sqrt 2
        \<and> n_neurons e_flat = 220 \<and> radius e_flat = 15
        \<and> n_neurons e_sub \<noteq> n_neurons e_flat \<and> radius e_sub \<noteq> radius e_flat))"
proof (intro conjI impI)
  assume run: "Product L n m k = (Inr p, k')"
  from completes_alike_Product run
  have "Product (no_failure :: unit library) n m k = (Inr p, k')"
    by (rule completes_alikeD)
  from Product_no_failure_ensembles [OF this]
  show "net_ensembles k' (net p) =
        [(net_combined p,
          \<lparr>n_neurons = 2 * n, dimensions = 2, radius = sqrt (m\<^sup>2 + m\<^sup>2),
           encoders = Some (ChoiceDist [[1, 1], [- 1, 1], [1, - 1], [- 1, - 1]])\<rparr>),
         (net_prod p,
          \<lparr>n_neurons = n, dimensions = 1, radius = 2 * m, encoders = None\<rparr>)]"
    by (simp add: mult.commute)
next
  assume run: "notebook L kernel0 =
        (Inr ((model, A, B, combined, prod_ens), (model', A', B', prod_net)), kf)"
  from notebook_completes [OF run]
  have "lookup kf combined = Some (EnsembleObj
          \<lparr>n_neurons = 220, dimensions = 2, radius = 15,
           encoders = Some (ChoiceDist [[1, 1], [- 1, 1], [1, - 1], [- 1, - 1]])\<rparr>)"
    and "lookup kf (net_combined prod_net) = Some (EnsembleObj
          \<lparr>n_neurons = 200, dimensions = 2, radius = 10 * sqrt 2,
           encoders = Some (ChoiceDist [[1, 1], [- 1, 1], [1, - 1], [- 1, - 1]])\<rparr>)"
    by (simp_all add: lookup_def sqrt_200)
  then show "\<exists>e_flat e_sub.
          lookup kf combined = Some (EnsembleObj e_flat)
        \<and> lookup kf (net_combined prod_net) = Some (EnsembleObj e_sub)
        \<and> n_neurons e_sub = 200 \<and> radius e_sub = 10 * sqrt 2
        \<and> n_neurons e_flat = 220 \<and> radius e_flat = 15
        \<and> n_neurons e_sub \<noteq> n_neurons e_flat \<and> radius e_sub \<noteq> radius e_flat"
    using ten_sqrt_2_not_15 by simp
qed

text \<open>
  The theorem for a library that accepts every call: \<^verbatim>\<open>Product(3, 2)\<close> in a fresh
  session, and the whole notebook.
\<close>

theorem Product_ensembles_differ_from_flat_model_witness:
  "fst (Product (no_failure :: unit library) 3 2 kernel0) =
     Inr \<lparr>net = 0, net_A = 1, net_B = 2, net_combined = 3, net_prod = 4\<rparr>
   \<and> net_ensembles (snd (Product (no_failure :: unit library) 3 2 kernel0)) 0 =
       [(3, \<lparr>n_neurons = 6, dimensions = 2, radius = sqrt 8,
             encoders = Some (ChoiceDist [[1, 1], [- 1, 1], [1, - 1], [- 1, - 1]])\<rparr>),
        (4, \<lparr>n_neurons = 3, dimensions = 1, radius = 4, encoders = None\<rparr>)]
   \<and> fst (notebook (no_failure :: unit library) kernel0) =
       Inr ((0, 1, 2, 3, 4), 19, 22, 23,
            \<lparr>net = 24, net_A = 25, net_B = 26, net_combined = 27, net_prod = 28\<rparr>)
   \<and> lookup (snd (notebook (no_failure :: unit library) kernel0)) 3 =
       Some (EnsembleObj
          \<lparr>n_neurons = 220, dimensions = 2, radius = 15,
           encoders = Some (ChoiceDist [[1, 1], [- 1, 1], [1, - 1], [- 1, - 1]])\<rparr>)
   \<and> lookup (snd (notebook (no_failure :: unit library) kernel0)) 27 =
       Some (EnsembleObj
          \<lparr>n_neurons = 200, dimensions = 2, radius = 10 * sqrt 2,
           encoders = Some (ChoiceDist [[1, 1], [- 1, 1], [1, - 1], [- 1, - 1]])\<rparr>)"
proof -
  let ?L = "no_failure :: unit library"
  have "Network ?L ''Product'' kernel0 =
      (Inr (length ([] :: obj list)),
       \<lparr>store = [] @ [NetworkObj \<lparr>label = ''Product'', members = []\<rparr>], net_context = [],
        history = [Network_call ''Product'']\<rparr>)"
    by (simp add: Network_def lib_call_def effect_defs no_failure_def kernel0_def)
  from Product_after_Network [OF this, of 3 2] obtain k1 where
    sub: "Product ?L 3 2 kernel0 =
      (Inr \<lparr>net = 0, net_A = 1, net_B = 2, net_combined = 3, net_prod = 4\<rparr>, k1)"
    by auto
  from notebook_no_failure [where ?'e = unit] obtain k2 where
    nb: "notebook ?L kernel0 =
      (Inr ((0, 1, 2, 3, 4), 19, 22, 23,
            \<lparr>net = 24, net_A = 25, net_B = 26, net_combined = 27, net_prod = 28\<rparr>), k2)"
    by blast
  have both:
    "(Product ?L 3 2 kernel0 =
        (Inr \<lparr>net = 0, net_A = 1, net_B = 2, net_combined = 3, net_prod = 4\<rparr>, k1) \<longrightarrow>
      net_ensembles k1 (net \<lparr>net = 0, net_A = 1, net_B = 2, net_combined = 3, net_prod = 4\<rparr>) =
        [(net_combined \<lparr>net = 0, net_A = 1, net_B = 2, net_combined = 3, net_prod = 4\<rparr>,
          \<lparr>n_neurons = 2 * 3, dimensions = 2, radius = sqrt (2\<^sup>2 + 2\<^sup>2),
           encoders = Some (ChoiceDist [[1, 1], [- 1, 1], [1, - 1], [- 1, - 1]])\<rparr>),
         (net_prod \<lparr>net = 0, net_A = 1, net_B = 2, net_combined = 3, net_prod = 4\<rparr>,
          \<lparr>n_neurons = 3, dimensions = 1, radius = 2 * 2, encoders = None\<rparr>)])
     \<and> (notebook ?L kernel0 =
        (Inr ((0, 1, 2, 3, 4), (19, 22, 23,
          \<lparr>net = 24, net_A = 25, net_B = 26, net_combined = 27, net_prod = 28\<rparr>)), k2) \<longrightarrow>
      (\<exists>e_flat e_sub.
          lookup k2 3 = Some (EnsembleObj e_flat)
        \<and> lookup k2
            (net_combined
              \<lparr>net = 24, net_A = 25, net_B = 26, net_combined = 27, net_prod = 28\<rparr>) =
            Some (EnsembleObj e_sub)
        \<and> n_neurons e_sub = 200 \<and> radius e_sub = 10 * sqrt 2
        \<and> n_neurons e_flat = 220 \<and> radius e_flat = 15
        \<and> n_neurons e_sub \<noteq> n_neurons e_flat \<and> radius e_sub \<noteq> radius e_flat))"
    by (rule Product_ensembles_differ_from_flat_model)
  from both sub have "net_ensembles k1 0 =
       [(3, \<lparr>n_neurons = 6, dimensions = 2, radius = sqrt 8,
             encoders = Some (ChoiceDist [[1, 1], [- 1, 1], [1, - 1], [- 1, - 1]])\<rparr>),
        (4, \<lparr>n_neurons = 3, dimensions = 1, radius = 4, encoders = None\<rparr>)]"
    by simp
  moreover from notebook_completes [OF nb]
  have "lookup k2 3 = Some (EnsembleObj
          \<lparr>n_neurons = 220, dimensions = 2, radius = 15,
           encoders = Some (ChoiceDist [[1, 1], [- 1, 1], [1, - 1], [- 1, - 1]])\<rparr>)"
    and "lookup k2 27 = Some (EnsembleObj
          \<lparr>n_neurons = 200, dimensions = 2, radius = 10 * sqrt 2,
           encoders = Some (ChoiceDist [[1, 1], [- 1, 1], [1, - 1], [- 1, - 1]])\<rparr>)"
    by (simp_all add: lookup_def sqrt_200)
  ultimately show ?thesis using sub nb by simp
qed

end
